theory Spec2Isabelle
  imports Complex_Main "HOL-Library.Word"
begin

section \<open>Go values used by the care-service messaging core\<close>

text \<open>
  A Go \<open>float64\<close> is either a finite number, an infinity or NaN. The finite values are
  embedded in the reals (every finite \<open>float64\<close> is a real number, and the constants the
  code compares against, 0, 30.0, 36.0, 36.5, 37.5, 38.0 and 42.0, are exact in binary
  floating point), so a statement proved for every \<open>Fin r\<close> holds for every finite
  \<open>float64\<close>. Comparisons follow IEEE 754 as Go implements them: every ordered
  comparison with NaN is false.
\<close>

datatype float64 = NaN | NegInf | Fin real | PosInf

fun f64_lt :: "float64 \<Rightarrow> float64 \<Rightarrow> bool" where
  "f64_lt NaN b = False"
| "f64_lt a NaN = False"
| "f64_lt PosInf b = False"
| "f64_lt a NegInf = False"
| "f64_lt NegInf b = True"
| "f64_lt a PosInf = True"
| "f64_lt (Fin x) (Fin y) = (x < y)"

definition f64_gt :: "float64 \<Rightarrow> float64 \<Rightarrow> bool" where
  "f64_gt a b = f64_lt b a"

definition f64_le :: "float64 \<Rightarrow> float64 \<Rightarrow> bool" where
  "f64_le a b = (a \<noteq> NaN \<and> b \<noteq> NaN \<and> \<not> f64_lt b a)"

definition f64_ge :: "float64 \<Rightarrow> float64 \<Rightarrow> bool" where
  "f64_ge a b = f64_le b a"

text \<open>\<open>uuid.UUID\<close> is a 16-byte array; \<open>uuid.Nil\<close> is the all-zero value.\<close>

type_synonym uuid = "128 word"

definition uuid_Nil :: uuid where
  "uuid_Nil = 0"

text \<open>Go's \<open>int\<close> on the 64-bit targets the service is built for; comparisons are signed.\<close>

type_synonym go_int = "64 word"

definition int_le :: "go_int \<Rightarrow> go_int \<Rightarrow> bool" where
  "int_le a b = (sint a \<le> sint b)"

definition int_gt :: "go_int \<Rightarrow> go_int \<Rightarrow> bool" where
  "int_gt a b = (sint b < sint a)"

text \<open>
  \<open>float64(n)\<close> for an \<open>int\<close>: exact up to \<open>2^53\<close> in magnitude (beyond that Go rounds to
  the nearest \<open>float64\<close>, still a finite value).
\<close>

definition float64_of_int :: "go_int \<Rightarrow> float64" where
  "float64_of_int n = Fin (real_of_int (sint n))"

text \<open>
  \<open>time.Time\<close> as an abstract instant; \<open>0\<close> stands for the zero \<open>Time\<close> that
  \<open>IsZero\<close> recognises. A \<open>time.Duration\<close> counts nanoseconds.
\<close>

type_synonym Time = nat

type_synonym Duration = int

definition Second :: Duration where
  "Second = 1000000000"

subsection \<open>Errors\<close>

text \<open>
  A Go \<open>error\<close> value: a plain message (\<open>errors.New\<close>, \<open>fmt.Errorf\<close> without \<open>%w\<close>) or
  a message wrapping a cause (\<open>fmt.Errorf\<close> with \<open>%w\<close>). A \<open>nil\<close> error is \<open>None\<close> of
  \<open>error option\<close>.
\<close>

datatype error = errorString string | wrapError string error

text \<open>
  \<open>fmt.Errorf(prefix + "%w", cause)\<close>. With a \<open>nil\<close> operand \<open>%w\<close> is a bad verb:
  the text gets \<open>%!w(<nil>)\<close> and the result wraps nothing.
\<close>

definition Errorf_w :: "string \<Rightarrow> error option \<Rightarrow> error" where
  "Errorf_w prefix cause =
     (case cause of
        Some e \<Rightarrow> wrapError prefix e
      | None \<Rightarrow> errorString (prefix @ ''%!w(<nil>)''))"

fun Unwrap :: "error \<Rightarrow> error option" where
  "Unwrap (wrapError msg e) = Some e"
| "Unwrap (errorString msg) = None"

text \<open>\<open>strconv.Itoa\<close> on a non-negative number, for the \<open>%d\<close> verbs of the messages.\<close>

definition digit :: "nat \<Rightarrow> char" where
  "digit d = ''0123456789'' ! d"

function Itoa :: "nat \<Rightarrow> string" where
  "Itoa n = (if n < 10 then [digit n] else Itoa (n div 10) @ [digit (n mod 10)])"
  by pat_completeness auto
termination
  by (relation "measure (\<lambda>n. n)") auto

declare Itoa.simps [simp del]

section \<open>Domain (internal/core/domain/baby.go)\<close>

datatype SafetyStatus = SafetyStatusGreen | SafetyStatusYellow | SafetyStatusRed

text \<open>\<open>string(status)\<close>: the constants' string values.\<close>

fun SafetyStatus_string :: "SafetyStatus \<Rightarrow> string" where
  "SafetyStatus_string SafetyStatusGreen = ''green''"
| "SafetyStatus_string SafetyStatusYellow = ''yellow''"
| "SafetyStatus_string SafetyStatusRed = ''red''"

definition FeedingTypeBottle :: string where "FeedingTypeBottle = ''bottle''"
definition FeedingTypeBreast :: string where "FeedingTypeBreast = ''breast''"

definition PositionCrossCradle :: string where "PositionCrossCradle = ''cross_cradle''"
definition PositionCradle :: string where "PositionCradle = ''cradle''"
definition PositionFootball :: string where "PositionFootball = ''football''"
definition PositionSideLying :: string where "PositionSideLying = ''side_lying''"
definition PositionLaidBack :: string where "PositionLaidBack = ''laid_back''"

definition SideLeft :: string where "SideLeft = ''left''"
definition SideRight :: string where "SideRight = ''right''"
definition SideBoth :: string where "SideBoth = ''both''"

definition DiaperStatusDry :: string where "DiaperStatusDry = ''dry''"
definition DiaperStatusWet :: string where "DiaperStatusWet = ''wet''"
definition DiaperStatusDirty :: string where "DiaperStatusDirty = ''dirty''"
definition DiaperStatusBoth :: string where "DiaperStatusBoth = ''both''"

record Baby =
  b_ID :: uuid
  b_LastName :: string
  b_RoomNumber :: string
  b_ParentUserID :: uuid
  b_CreatedAt :: Time

record Measurement =
  m_ID :: uuid
  m_ParentID :: uuid
  m_BabyID :: uuid
  m_Type :: string
  m_Value :: float64
  m_SafetyStatus :: SafetyStatus
  m_Note :: string
  m_Timestamp :: Time
  m_CreatedAt :: Time
  m_FeedingType :: string
  m_VolumeML :: "go_int option"
  m_Position :: "string option"
  m_Side :: "string option"
  m_LeftDuration :: "go_int option"
  m_RightDuration :: "go_int option"
  m_Duration :: "go_int option"
  m_ValueCelsius :: "float64 option"
  m_DiaperStatus :: "string option"

definition MeasurementTypeFeeding :: string where
  "MeasurementTypeFeeding = ''feeding''"

definition MeasurementTypeWeight :: string where
  "MeasurementTypeWeight = ''weight''"

definition MeasurementTypeTemperature :: string where
  "MeasurementTypeTemperature = ''temperature''"

definition MeasurementTypeDiaper :: string where
  "MeasurementTypeDiaper = ''diaper''"

definition ValidMeasurementTypes :: "string list" where
  "ValidMeasurementTypes =
     [MeasurementTypeFeeding, MeasurementTypeWeight, MeasurementTypeTemperature,
      MeasurementTypeDiaper]"

definition IsValidMeasurementType :: "string \<Rightarrow> bool" where
  "IsValidMeasurementType measurementType = (measurementType \<in> set ValidMeasurementTypes)"

definition ValidBreastfeedingPositions :: "string list" where
  "ValidBreastfeedingPositions =
     [PositionCrossCradle, PositionCradle, PositionFootball, PositionSideLying,
      PositionLaidBack]"

definition IsValidBreastfeedingPosition :: "string \<Rightarrow> bool" where
  "IsValidBreastfeedingPosition position = (position \<in> set ValidBreastfeedingPositions)"

definition ValidBreastfeedingSides :: "string list" where
  "ValidBreastfeedingSides = [SideLeft, SideRight, SideBoth]"

definition IsValidBreastfeedingSide :: "string \<Rightarrow> bool" where
  "IsValidBreastfeedingSide side = (side \<in> set ValidBreastfeedingSides)"

definition ValidDiaperStatuses :: "string list" where
  "ValidDiaperStatuses = [DiaperStatusDry, DiaperStatusWet, DiaperStatusDirty, DiaperStatusBoth]"

definition IsValidDiaperStatus :: "string \<Rightarrow> bool" where
  "IsValidDiaperStatus status = (status \<in> set ValidDiaperStatuses)"

definition TemperatureNormalMin :: float64 where "TemperatureNormalMin = Fin 36.5"
definition TemperatureNormalMax :: float64 where "TemperatureNormalMax = Fin 37.5"
definition TemperatureYellowMin :: float64 where "TemperatureYellowMin = Fin 36.0"
definition TemperatureYellowMax :: float64 where "TemperatureYellowMax = Fin 38.0"

text \<open>The \<open>switch\<close> of \<open>CalculateSafetyStatus\<close>, case by case in the source's order.\<close>

definition CalculateSafetyStatus :: "string \<Rightarrow> float64 \<Rightarrow> SafetyStatus" where
  "CalculateSafetyStatus measurementType v =
     (if measurementType = MeasurementTypeTemperature then
        (if f64_ge v TemperatureNormalMin \<and> f64_le v TemperatureNormalMax then SafetyStatusGreen
         else if f64_ge v TemperatureYellowMin \<and> f64_lt v TemperatureNormalMin
           then SafetyStatusYellow
         else if f64_gt v TemperatureNormalMax \<and> f64_le v TemperatureYellowMax
           then SafetyStatusYellow
         else SafetyStatusRed)
      else if measurementType = MeasurementTypeWeight then
        (if f64_gt v (Fin 0) then SafetyStatusGreen else SafetyStatusYellow)
      else if measurementType = MeasurementTypeFeeding then SafetyStatusGreen
      else if measurementType = MeasurementTypeDiaper then SafetyStatusGreen
      else SafetyStatusGreen)"

definition IsAbnormalMeasurement :: "Measurement \<Rightarrow> bool" where
  "IsAbnormalMeasurement m = (m_SafetyStatus m = SafetyStatusRed)"

section \<open>Event publisher: the alert type (publishWithRetry, the derivation block)\<close>

text \<open>
  The first statements of \<open>publishWithRetry\<close>: \<open>alertType\<close> starts as
  \<open>critical_measurement\<close> and is overwritten by the nested \<open>if\<close>.
\<close>

definition alertType :: "Measurement \<Rightarrow> string" where
  "alertType measurement =
     (if m_Type measurement = MeasurementTypeTemperature then
        (if f64_gt (m_Value measurement) TemperatureYellowMax then ''high_temperature_critical''
         else if f64_lt (m_Value measurement) TemperatureYellowMin
           then ''low_temperature_critical''
         else ''critical_measurement'')
      else if m_Type measurement = MeasurementTypeWeight then ''invalid_weight''
      else ''critical_measurement'')"

section \<open>Baby service (internal/core/services/baby_service.go)\<close>

text \<open>
  \<open>CreateBaby\<close>. The repository's \<open>CreateBaby\<close>, the fresh \<open>uuid.New()\<close> and
  \<open>time.Now()\<close> come from outside and are parameters.
\<close>

definition CreateBaby ::
  "(Baby \<Rightarrow> error option) \<Rightarrow> uuid \<Rightarrow> Time \<Rightarrow>
   string \<Rightarrow> string \<Rightarrow> uuid \<Rightarrow> uuid \<Rightarrow> bool \<Rightarrow> error + Baby" where
  "CreateBaby babyRepo_CreateBaby new_uuid now lastName roomNumber parentUserID createdByUserID
     isAdmin =
     (if \<not> isAdmin then Inl (errorString ''forbidden: only ADMIN can create babies'')
      else if lastName = [] then Inl (errorString ''baby last_name cannot be empty'')
      else if roomNumber = [] then Inl (errorString ''baby room_number cannot be empty'')
      else
        (let baby = \<lparr>b_ID = new_uuid, b_LastName = lastName, b_RoomNumber = roomNumber,
                      b_ParentUserID = parentUserID, b_CreatedAt = now\<rparr>
         in case babyRepo_CreateBaby baby of
              Some err \<Rightarrow> Inl (Errorf_w ''failed to create baby: '' (Some err))
            | None \<Rightarrow> Inr baby))"

section \<open>Inbound message consumer (internal/adapters/repository/baby_consumer.go)\<close>

record BabyCreationRequest =
  UserID :: string
  LastName :: string
  RoomNumber :: string

text \<open>
  What \<open>processMessage\<close> does to the outside world, in the order it does it: log lines,
  the call of the injected \<open>babyService.CreateBaby\<close> with its arguments, and the
  acknowledgement decisions \<open>msg.Nack(multiple, requeue)\<close> and \<open>msg.Ack(multiple)\<close>.
\<close>

datatype consumer_event =
    Log string
  | CreateBabyCall string string uuid uuid bool
  | Nack bool bool
  | Ack bool

text \<open>
  \<open>processMessage\<close>. \<open>json.Unmarshal\<close> into a \<open>BabyCreationRequest\<close>, \<open>uuid.Parse\<close>,
  the injected service and the error \<open>msg.Ack\<close> returns are parameters. The function
  has no result in Go; the trace is what it did.
\<close>

definition processMessage ::
  "(string \<Rightarrow> error + BabyCreationRequest) \<Rightarrow> (string \<Rightarrow> error + uuid) \<Rightarrow>
   (string \<Rightarrow> string \<Rightarrow> uuid \<Rightarrow> uuid \<Rightarrow> bool \<Rightarrow> error + Baby) \<Rightarrow> error option \<Rightarrow>
   string \<Rightarrow> consumer_event list" where
  "processMessage json_Unmarshal uuid_Parse babyService_CreateBaby ack_err body =
     (case json_Unmarshal body of
        Inl err \<Rightarrow> [Log ''Failed to unmarshal baby creation request'', Nack False False]
      | Inr req \<Rightarrow>
          Log ''Received baby creation request'' #
          (if UserID req = [] then
             [Log ''Invalid baby creation request: user_id is required'', Nack False False]
           else if LastName req = [] then
             [Log ''Invalid baby creation request: last_name is required'', Nack False False]
           else if RoomNumber req = [] then
             [Log ''Invalid baby creation request: room_number is required'', Nack False False]
           else
             (case uuid_Parse (UserID req) of
                Inl err \<Rightarrow>
                  [Log ''Invalid baby creation request: user_id is not a valid UUID'',
                   Nack False False]
              | Inr parentUserID \<Rightarrow>
                  (let adminUserID = uuid_Nil in
                   CreateBabyCall (LastName req) (RoomNumber req) parentUserID adminUserID True #
                   (case babyService_CreateBaby (LastName req) (RoomNumber req) parentUserID
                           adminUserID True of
                      Inl err \<Rightarrow>
                        [Log ''Failed to create baby from RabbitMQ message'', Nack False True]
                    | Inr baby \<Rightarrow>
                        Log ''Successfully created baby from RabbitMQ'' # Ack False #
                        (case ack_err of
                           Some err \<Rightarrow>
                             [Log ''Failed to acknowledge message after baby creation'']
                         | None \<Rightarrow> []))))))"

text \<open>The acknowledgement decisions and the service calls of a trace.\<close>

fun is_decision :: "consumer_event \<Rightarrow> bool" where
  "is_decision (Nack multiple requeue) = True"
| "is_decision (Ack multiple) = True"
| "is_decision e = False"

fun is_service_call :: "consumer_event \<Rightarrow> bool" where
  "is_service_call (CreateBabyCall l r p a f) = True"
| "is_service_call e = False"

definition decisions :: "consumer_event list \<Rightarrow> consumer_event list" where
  "decisions tr = filter is_decision tr"

definition service_calls :: "consumer_event list \<Rightarrow> consumer_event list" where
  "service_calls tr = filter is_service_call tr"

section \<open>Measurement service (internal/core/services)\<close>

record CreateMeasurementRequest =
  req_Type :: string
  req_Value :: float64
  req_Note :: string
  req_Timestamp :: Time
  req_FeedingType :: string
  req_VolumeML :: "go_int option"
  req_Position :: string
  req_Side :: string
  req_LeftDuration :: "go_int option"
  req_RightDuration :: "go_int option"
  req_Duration :: "go_int option"
  req_ValueCelsius :: "float64 option"
  req_DiaperStatus :: string

text \<open>\<open>validateMeasurement\<close>: \<open>None\<close> is the \<open>nil\<close> error.\<close>

definition validateMeasurement :: "CreateMeasurementRequest \<Rightarrow> error option" where
  "validateMeasurement req =
     (if req_Type req = MeasurementTypeTemperature then
        (if f64_lt (req_Value req) (Fin 30.0) \<or> f64_gt (req_Value req) (Fin 42.0)
           then Some (errorString (''temperature must be between 30.0 and 42.0'' @ [CHR 0xC2, CHR 0xB0] @ ''C''))
         else None)
      else if req_Type req = MeasurementTypeWeight then
        (if f64_le (req_Value req) (Fin 0)
           then Some (errorString ''weight must be greater than 0 grams'')
         else if f64_gt (req_Value req) (Fin 10000)
           then Some (errorString ''weight exceeds reasonable maximum (10000g)'')
         else None)
      else if req_Type req = MeasurementTypeFeeding then
        (if req_FeedingType req = []
           then Some (errorString ''feeding type must be specified (bottle or breast)'')
         else None)
      else if req_Type req = MeasurementTypeDiaper then
        (if req_DiaperStatus req = []
           then Some (errorString ''diaper status must be specified (dry, wet, dirty, or both)'')
         else None)
      else Some (errorString (''unsupported measurement type: '' @ req_Type req)))"

text \<open>
  The three \<open>set...Fields\<close> helpers of measurement_helpers.go write into the measurement
  they are given and return an error; a caller that gets an error drops the measurement, so
  the model returns either the error or the measurement as written.
\<close>

definition setFeedingFields ::
  "Measurement \<Rightarrow> CreateMeasurementRequest \<Rightarrow> error + Measurement" where
  "setFeedingFields measurement req =
     (if req_FeedingType req = []
        then Inl (errorString ''feeding type must be specified (bottle or breast)'')
      else
        (let feedingType = req_FeedingType req in
         if feedingType \<noteq> FeedingTypeBottle \<and> feedingType \<noteq> FeedingTypeBreast
           then Inl (errorString (''feeding type must be 'bottle' or 'breast'' @ [CHR 0x27]))
         else
           (let m1 = measurement\<lparr>m_FeedingType := feedingType\<rparr> in
            if feedingType = FeedingTypeBottle then
              (case req_VolumeML req of
                 None \<Rightarrow> Inl (errorString ''bottle feeding requires volume_ml > 0'')
               | Some v \<Rightarrow>
                   if int_le v 0 then Inl (errorString ''bottle feeding requires volume_ml > 0'')
                   else if int_gt v 500
                     then Inl (errorString ''bottle volume exceeds reasonable maximum (500ml)'')
                   else Inr (m1\<lparr>m_VolumeML := Some v, m_Value := float64_of_int v\<rparr>))
            else if req_Side req = []
              then Inl (errorString ''breast feeding requires side (left, right, or both)'')
            else
              (let side = req_Side req in
               if \<not> IsValidBreastfeedingSide side
                 then Inl (errorString (''invalid side: must be 'left', 'right', or 'both'' @ [CHR 0x27]))
               else
                 (let m2 = m1\<lparr>m_Side := Some side\<rparr> in
                  if req_Position req \<noteq> [] \<and> \<not> IsValidBreastfeedingPosition (req_Position req)
                    then Inl (errorString (''invalid breastfeeding position: '' @ req_Position req))
                  else
                    (let m3 = (if req_Position req \<noteq> []
                               then m2\<lparr>m_Position := Some (req_Position req)\<rparr> else m2) in
                     if side = SideBoth then
                       (case req_LeftDuration req of
                          None \<Rightarrow> Inl (errorString
                            ''breast feeding with both sides requires left_duration > 0'')
                        | Some l \<Rightarrow>
                            if int_le l 0 then Inl (errorString
                              ''breast feeding with both sides requires left_duration > 0'')
                            else
                              (case req_RightDuration req of
                                 None \<Rightarrow> Inl (errorString
                                   ''breast feeding with both sides requires right_duration > 0'')
                               | Some r \<Rightarrow>
                                   if int_le r 0 then Inl (errorString
                                     ''breast feeding with both sides requires right_duration > 0'')
                                   else
                                     (let totalSeconds = l + r in
                                      Inr (m3\<lparr>m_LeftDuration := Some l,
                                               m_RightDuration := Some r,
                                               m_Value := float64_of_int totalSeconds\<rparr>))))
                     else
                       (case req_Duration req of
                          None \<Rightarrow> Inl (errorString
                            ''breast feeding with single side requires duration > 0 seconds'')
                        | Some d \<Rightarrow>
                            if int_le d 0 then Inl (errorString
                              ''breast feeding with single side requires duration > 0 seconds'')
                            else if int_gt d 3600 then Inl (errorString
                              ''breast feeding duration exceeds reasonable maximum (3600 seconds / 60 minutes)'')
                            else Inr (m3\<lparr>m_Duration := Some d,
                                          m_Value := float64_of_int d\<rparr>))))))))"

definition setTemperatureFields ::
  "Measurement \<Rightarrow> CreateMeasurementRequest \<Rightarrow> error + Measurement" where
  "setTemperatureFields measurement req =
     (let tempValue = (case req_ValueCelsius req of Some c \<Rightarrow> c | None \<Rightarrow> req_Value req) in
      if f64_lt tempValue (Fin 30.0) \<or> f64_gt tempValue (Fin 42.0)
        then Inl (errorString (''temperature must be between 30.0 and 42.0'' @ [CHR 0xC2, CHR 0xB0] @ ''C''))
      else Inr (measurement\<lparr>m_ValueCelsius := Some tempValue, m_Value := tempValue\<rparr>))"

definition setDiaperFields ::
  "Measurement \<Rightarrow> CreateMeasurementRequest \<Rightarrow> error + Measurement" where
  "setDiaperFields measurement req =
     (if req_DiaperStatus req = []
        then Inl (errorString ''diaper status must be specified (dry, wet, dirty, or both)'')
      else
        (let status = req_DiaperStatus req in
         if \<not> IsValidDiaperStatus status
           then Inl (errorString
             (''invalid diaper status: must be 'dry', 'wet', 'dirty', or 'both'' @ [CHR 0x27]))
         else Inr (measurement\<lparr>m_DiaperStatus := Some status, m_Value := Fin 0\<rparr>)))"

text \<open>
  What the service receives from outside: the two repositories and the alert publisher
  behind their interfaces, \<open>uuid.New()\<close>, the two \<open>time.Now()\<close> readings that end up in
  the measurement, and the time the call took (\<open>time.Since(startTime)\<close>).
\<close>

record service_env =
  babyRepo_BabyExists :: "uuid \<Rightarrow> error + bool"
  babyRepo_CheckBabyOwnership :: "uuid \<Rightarrow> uuid \<Rightarrow> error + bool"
  measurementRepo_CreateMeasurement :: "Measurement \<Rightarrow> error option"
  alertPublisher_PublishAlert :: "uuid \<Rightarrow> Measurement \<Rightarrow> error option"
  new_uuid :: uuid
  now_timestamp :: Time
  now_created :: Time
  elapsed :: Duration

text \<open>
  What the service does besides returning: the structured log lines of \<open>logMeasurement\<close>
  (the measurement and the event name), plain log lines, and the call of
  \<open>PublishAlert\<close> with its arguments.
\<close>

datatype service_event =
    LogMeasurement Measurement string
  | LogLine string
  | PublishAlertCall uuid Measurement

text \<open>
  The body of the goroutine that \<open>CreateMeasurementWithDetails\<close> starts for a Red
  measurement: it calls the publisher and logs the outcome.
\<close>

definition alert_goroutine :: "service_env \<Rightarrow> uuid \<Rightarrow> Measurement \<Rightarrow> service_event list" where
  "alert_goroutine env babyID measurement =
     PublishAlertCall babyID measurement #
     (case alertPublisher_PublishAlert env babyID measurement of
        Some err \<Rightarrow> [LogLine ''Failed to publish alert for Red status measurement'']
      | None \<Rightarrow> [LogMeasurement measurement ''alert_published''])"

text \<open>The \<open>switch req.Type\<close> that fills the type-specific fields.\<close>

definition set_type_fields ::
  "Measurement \<Rightarrow> CreateMeasurementRequest \<Rightarrow> error + Measurement" where
  "set_type_fields measurement req =
     (if req_Type req = MeasurementTypeFeeding then setFeedingFields measurement req
      else if req_Type req = MeasurementTypeTemperature then setTemperatureFields measurement req
      else if req_Type req = MeasurementTypeDiaper then setDiaperFields measurement req
      else Inr measurement)"

text \<open>
  \<open>CreateMeasurementWithDetails\<close>. The result has three parts: what the call returns
  (the error, or the measurement with a \<open>nil\<close> error), what it logs before returning, and
  what the goroutine it started does (empty when none was started). The goroutine runs
  detached from the call, so its events are kept apart from the call's.
\<close>

definition CreateMeasurementWithDetails ::
  "service_env \<Rightarrow> uuid \<Rightarrow> CreateMeasurementRequest \<Rightarrow> uuid \<Rightarrow> bool \<Rightarrow>
   (error + Measurement) \<times> service_event list \<times> service_event list" where
  "CreateMeasurementWithDetails env babyID req userID isAdmin =
     (if \<not> IsValidMeasurementType (req_Type req)
        then (Inl (errorString (''invalid measurement type: '' @ req_Type req)), [], [])
      else
        (case validateMeasurement req of
           Some err \<Rightarrow> (Inl err, [], [])
         | None \<Rightarrow>
             (case babyRepo_BabyExists env babyID of
                Inl err \<Rightarrow> (Inl (Errorf_w ''failed to check baby existence: '' (Some err)), [], [])
              | Inr exists \<Rightarrow>
                  if \<not> exists then (Inl (errorString ''baby not found''), [], [])
                  else if isAdmin
                    then (Inl (errorString ''forbidden: only PARENT can create measurements''),
                          [], [])
                  else
                    (case babyRepo_CheckBabyOwnership env babyID userID of
                       Inl err \<Rightarrow>
                         (Inl (Errorf_w ''failed to check ownership: '' (Some err)), [], [])
                     | Inr owned \<Rightarrow>
                         if \<not> owned then (Inl (errorString ''baby not found''), [], [])
                         else
                           (let safetyStatus = CalculateSafetyStatus (req_Type req) (req_Value req);
                                timestamp = (if req_Timestamp req = 0 then now_timestamp env
                                             else req_Timestamp req);
                                measurement =
                                  \<lparr>m_ID = new_uuid env, m_ParentID = userID, m_BabyID = babyID,
                                   m_Type = req_Type req, m_Value = req_Value req,
                                   m_SafetyStatus = safetyStatus, m_Note = req_Note req,
                                   m_Timestamp = timestamp, m_CreatedAt = now_created env,
                                   m_FeedingType = [], m_VolumeML = None, m_Position = None,
                                   m_Side = None, m_LeftDuration = None, m_RightDuration = None,
                                   m_Duration = None, m_ValueCelsius = None,
                                   m_DiaperStatus = None\<rparr>
                            in case set_type_fields measurement req of
                                 Inl err \<Rightarrow> (Inl err, [], [])
                               | Inr measurement \<Rightarrow>
                                   (case measurementRepo_CreateMeasurement env measurement of
                                      Some err \<Rightarrow>
                                        (Inl (Errorf_w ''failed to create measurement: ''
                                                (Some err)), [], [])
                                    | None \<Rightarrow>
                                        (if 2 * Second < elapsed env
                                           then Inl (errorString ''operation exceeded 2s timeout'')
                                         else Inr measurement,
                                         [LogMeasurement measurement ''created''],
                                         if m_SafetyStatus measurement = SafetyStatusRed
                                           then alert_goroutine env babyID measurement
                                         else [])))))))"

text \<open>\<open>CreateMeasurement\<close>: the same call with only type, value and note set.\<close>

definition CreateMeasurement ::
  "service_env \<Rightarrow> uuid \<Rightarrow> string \<Rightarrow> float64 \<Rightarrow> string \<Rightarrow> uuid \<Rightarrow> bool \<Rightarrow>
   (error + Measurement) \<times> service_event list \<times> service_event list" where
  "CreateMeasurement env babyID measurementType v note userID isAdmin =
     CreateMeasurementWithDetails env babyID
       \<lparr>req_Type = measurementType, req_Value = v, req_Note = note, req_Timestamp = 0,
        req_FeedingType = [], req_VolumeML = None, req_Position = [], req_Side = [],
        req_LeftDuration = None, req_RightDuration = None, req_Duration = None,
        req_ValueCelsius = None, req_DiaperStatus = []\<rparr>
       userID isAdmin"

text \<open>The three parts of the result.\<close>

definition returned :: "'a \<times> 'b \<times> 'c \<Rightarrow> 'a" where
  "returned r = fst r"

definition logged :: "'a \<times> 'b \<times> 'c \<Rightarrow> 'b" where
  "logged r = fst (snd r)"

definition background :: "'a \<times> 'b \<times> 'c \<Rightarrow> 'c" where
  "background r = snd (snd r)"

section \<open>Broker handles and signal channels\<close>

text \<open>
  An \<open>*amqp091.Connection\<close> or \<open>*amqp091.Channel\<close> held in a field: \<open>None\<close> is the
  \<open>nil\<close> pointer, \<open>Some h\<close> a handle that is open or closed (\<open>IsClosed()\<close>).
\<close>

datatype handle = Open | Closed

definition IsClosed :: "handle \<Rightarrow> bool" where
  "IsClosed h = (h = Closed)"

text \<open>
  \<open>reconnectCh\<close> is \<open>make(chan bool, 1)\<close> and is never closed: its state is the number
  of values waiting in the buffer. \<open>stopReconnect\<close> is \<open>make(chan bool)\<close>, never sent on
  and only closed: its state is whether it has been closed. A value handed straight to a
  receiver that is already waiting passes through the buffer in the model.
\<close>

definition reconnectCh_capacity :: nat where
  "reconnectCh_capacity = 1"

text \<open>\<open>select { case ch <- true: default: }\<close>: the send happens when there is room.\<close>

definition try_send :: "nat \<Rightarrow> nat" where
  "try_send buffered = (if buffered < reconnectCh_capacity then buffered + 1 else buffered)"

text \<open>
  \<open>ch <- true\<close>: with room in the buffer the value is queued; with a full buffer the
  sending goroutine blocks (\<open>None\<close>) until a receiver takes a value.
\<close>

definition blocking_send :: "nat \<Rightarrow> nat option" where
  "blocking_send buffered = (if buffered < reconnectCh_capacity then Some (buffered + 1) else None)"

text \<open>How a call ends: it returns, or it panics, as \<open>close\<close> of a closed channel does.\<close>

datatype 'a outcome = Returns 'a | Panics string

section \<open>Event publisher (the RabbitMQ publisher, package repository)\<close>

record RabbitMQPublisher =
  p_conn :: "handle option"
  p_channel :: "handle option"
  p_queueName :: string
  p_maxRetries :: nat
  p_retryDelay :: Duration
  p_reconnectCh :: nat
  p_stopReconnect_closed :: bool

record AlertEvent =
  ae_BabyID :: uuid
  ae_Measurement :: Measurement
  ae_Timestamp :: Time
  ae_AlertType :: string
  ae_SafetyStatus :: string
  ae_Severity :: string

text \<open>
  What one turn of the retry loop meets: the \<open>channel\<close> and \<open>conn\<close> fields as read
  under the read lock (the reconnection goroutine may have replaced them since the last
  turn), the error \<open>PublishWithContext\<close> returns if it is called, and the time since the
  start of the call if the publish succeeds.
\<close>

record attempt =
  at_channel :: "handle option"
  at_conn :: "handle option"
  at_publish_err :: "error option"
  at_latency :: Duration

datatype publisher_event =
    PubLog string
  | ReconnectRequest
  | Sleep Duration
  | PublishWithContext string string

text \<open>The calls of \<open>PublishWithContext\<close> among the events.\<close>

fun is_publish_io :: "publisher_event \<Rightarrow> bool" where
  "is_publish_io (PublishWithContext q b) = True"
| "is_publish_io e = False"

definition prepend ::
  "publisher_event list \<Rightarrow> error option \<times> publisher_event list \<times> nat \<Rightarrow>
   error option \<times> publisher_event list \<times> nat" where
  "prepend evs r = (fst r, evs @ fst (snd r), snd (snd r))"

text \<open>
  The \<open>for i := 0; i < p.maxRetries; i++\<close> loop of \<open>publishWithRetry\<close>, from turn \<open>i\<close>
  with the current \<open>lastErr\<close> and the state of \<open>reconnectCh\<close>. The result is the error
  returned (\<open>None\<close> for \<open>nil\<close>), the events in order and the final state of
  \<open>reconnectCh\<close>.
\<close>

function publish_loop ::
  "RabbitMQPublisher \<Rightarrow> (nat \<Rightarrow> attempt) \<Rightarrow> string \<Rightarrow> nat \<Rightarrow> error option \<Rightarrow> nat \<Rightarrow>
   error option \<times> publisher_event list \<times> nat" where
  "publish_loop p turn body i lastErr rc =
     (if i < p_maxRetries p then
        (if at_channel (turn i) = None \<or> at_conn (turn i) = None
            \<or> (case at_conn (turn i) of Some conn \<Rightarrow> IsClosed conn | None \<Rightarrow> False)
         then prepend [ReconnectRequest, Sleep (p_retryDelay p)]
                (publish_loop p turn body (i + 1) lastErr (try_send rc))
         else
           (case at_publish_err (turn i) of
              None \<Rightarrow>
                (None,
                 PublishWithContext (p_queueName p) body #
                 (if 15 * Second < at_latency (turn i)
                    then [PubLog ''Warning: Alert publishing latency exceeded 15s''] else []),
                 rc)
            | Some err \<Rightarrow>
                (if i < p_maxRetries p - 1
                 then prepend [PublishWithContext (p_queueName p) body,
                               PubLog ''Failed to publish alert'',
                               ReconnectRequest, Sleep (p_retryDelay p)]
                        (publish_loop p turn body (i + 1) (Some err) (try_send rc))
                 else prepend [PublishWithContext (p_queueName p) body,
                               PubLog ''Failed to publish alert'']
                        (publish_loop p turn body (i + 1) (Some err) rc))))
      else
        (Some (Errorf_w (''failed to publish alert after '' @ Itoa (p_maxRetries p)
                 @ '' retries: '') lastErr),
         [], rc))"
  by pat_completeness auto
termination
  by (relation "measure (\<lambda>(p, turn, body, i, lastErr, rc). p_maxRetries p - i)") auto

declare publish_loop.simps [simp del]

text \<open>
  \<open>publishWithRetry\<close>: the alert type, the event, the log line, \<open>json.Marshal\<close> (a
  parameter, with the \<open>time.Now()\<close> of the event), then the loop.
\<close>

definition publishWithRetry ::
  "RabbitMQPublisher \<Rightarrow> (AlertEvent \<Rightarrow> error + string) \<Rightarrow> Time \<Rightarrow> (nat \<Rightarrow> attempt) \<Rightarrow>
   uuid \<Rightarrow> Measurement \<Rightarrow> nat \<Rightarrow> error option \<times> publisher_event list \<times> nat" where
  "publishWithRetry p json_Marshal now turn babyID measurement rc =
     (let event = \<lparr>ae_BabyID = babyID, ae_Measurement = measurement, ae_Timestamp = now,
                   ae_AlertType = alertType measurement,
                   ae_SafetyStatus = SafetyStatus_string (m_SafetyStatus measurement),
                   ae_Severity = ''critical''\<rparr>
      in case json_Marshal event of
           Inl err \<Rightarrow>
             (Some (Errorf_w ''failed to marshal alert event: '' (Some err)),
              [PubLog ''alert_publish_attempt''], rc)
         | Inr body \<Rightarrow>
             prepend [PubLog ''alert_publish_attempt''] (publish_loop p turn body 0 None rc))"

text \<open>
  The publisher \<open>NewRabbitMQPublisher\<close> builds once \<open>connect\<close> has succeeded: three
  attempts, one second apart, an empty \<open>reconnectCh\<close> and an open \<open>stopReconnect\<close>.
\<close>

definition NewRabbitMQPublisher :: "string \<Rightarrow> RabbitMQPublisher" where
  "NewRabbitMQPublisher queueName =
     \<lparr>p_conn = Some Open, p_channel = Some Open,
      p_queueName = (if queueName = [] then ''baby_alerts'' else queueName),
      p_maxRetries = 3, p_retryDelay = 1 * Second,
      p_reconnectCh = 0, p_stopReconnect_closed = False\<rparr>"

text \<open>
  \<open>Close\<close> of the publisher. The error of \<open>p.conn.Close()\<close> is a parameter; the handles
  are closed afterwards whatever it returns.
\<close>

definition RabbitMQPublisher_Close ::
  "error option \<Rightarrow> RabbitMQPublisher \<Rightarrow> (error option \<times> RabbitMQPublisher) outcome" where
  "RabbitMQPublisher_Close conn_close_err p =
     (if p_stopReconnect_closed p then Panics ''close of closed channel''
      else
        (let p1 = p\<lparr>p_stopReconnect_closed := True\<rparr>;
             p2 = (if p_channel p1 \<noteq> None then p1\<lparr>p_channel := Some Closed\<rparr> else p1)
         in if p_conn p2 \<noteq> None then Returns (conn_close_err, p2\<lparr>p_conn := Some Closed\<rparr>)
            else Returns (None, p2)))"

section \<open>Circuit breaker around the publish\<close>

text \<open>
  The publisher guards \<open>publishWithRetry\<close> with a \<open>gobreaker.CircuitBreaker\<close>. The
  settings are in \<open>NewRabbitMQPublisher\<close> and are taken from there. The breaker itself is
  the library \<open>github.com/sony/gobreaker\<close>, whose code is not part of the repository's
  files; its state machine is modelled from section 4.2 of the specification. Times are
  nanoseconds on one clock, read at each call.
\<close>

text \<open>
  Modelled from the spec: the library's state type is missing from the files;
  "CircuitState: one of Closed, Open, HalfOpen" (section 3).
\<close>

datatype CircuitState = StateClosed | StateOpen | StateHalfOpen

text \<open>
  \<open>gobreaker.Counts\<close> and \<open>gobreaker.Settings\<close>, with the fields the source names:
  \<open>ReadyToTrip\<close> reads \<open>counts.ConsecutiveFailures\<close>, and the settings literal sets
  \<open>MaxRequests\<close>, \<open>Interval\<close>, \<open>Timeout\<close> and \<open>ReadyToTrip\<close>.
\<close>

record Counts =
  Requests :: nat
  ConsecutiveSuccesses :: nat
  ConsecutiveFailures :: nat

record Settings =
  MaxRequests :: nat
  Interval :: Duration
  Timeout :: Duration
  ReadyToTrip :: "Counts \<Rightarrow> bool"

text \<open>The \<open>gobreaker.Settings\<close> literal of \<open>NewRabbitMQPublisher\<close>.\<close>

definition rabbitmq_settings :: Settings where
  "rabbitmq_settings =
     \<lparr>MaxRequests = 5, Interval = 60 * Second, Timeout = 30 * Second,
      ReadyToTrip = (\<lambda>counts. 5 < ConsecutiveFailures counts)\<rparr>"

text \<open>
  Modelled from the spec: the breaker's own state is missing from the files; it is the
  circuit state, the counts, and the time at which the cooldown of an open breaker ends
  (sections 3 and 4.2).
\<close>

record CircuitBreaker =
  cb_state :: CircuitState
  cb_counts :: Counts
  cb_expiry :: int

text \<open>
  Modelled from the spec: the library's error value is missing from the files;
  "CircuitOpenError: fail-fast signal when the breaker is tripped" (section 7).
\<close>

definition CircuitOpenError :: error where
  "CircuitOpenError = errorString ''circuit breaker is open''"

definition no_counts :: Counts where
  "no_counts = \<lparr>Requests = 0, ConsecutiveSuccesses = 0, ConsecutiveFailures = 0\<rparr>"

text \<open>
  Modelled from the spec: \<open>gobreaker.NewCircuitBreaker\<close> is missing from the files; the
  breaker starts \<open>Closed\<close> (section 4.2, "start Closed").
\<close>

definition NewCircuitBreaker :: CircuitBreaker where
  "NewCircuitBreaker = \<lparr>cb_state = StateClosed, cb_counts = no_counts, cb_expiry = 0\<rparr>"

text \<open>
  Modelled from the spec: the breaker's state change is missing from the files; the counts
  "are reset on every state transition" (section 3), and entering \<open>Open\<close> starts the
  cooldown window of \<open>Timeout\<close> (section 4.2).
\<close>

definition setState :: "Settings \<Rightarrow> CircuitState \<Rightarrow> int \<Rightarrow> CircuitBreaker \<Rightarrow> CircuitBreaker" where
  "setState st s now cb =
     \<lparr>cb_state = s, cb_counts = no_counts,
      cb_expiry = (if s = StateOpen then now + Timeout st else 0)\<rparr>"

text \<open>
  Modelled from the spec: the breaker's admission step is missing from the files. "While
  Open, all calls fail immediately with CircuitOpenError without attempting the underlying
  operation, for a cooldown window. After the cooldown elapses, transition to HalfOpen and
  allow a small number of trial calls (bounded request budget)" (section 4.2). The result
  is the breaker after the step and the fail-fast error, if any.
\<close>

definition beforeRequest ::
  "Settings \<Rightarrow> CircuitBreaker \<Rightarrow> int \<Rightarrow> CircuitBreaker \<times> error option" where
  "beforeRequest st cb now =
     (let cb1 = (if cb_state cb = StateOpen \<and> cb_expiry cb < now
                 then setState st StateHalfOpen now cb else cb)
      in if cb_state cb1 = StateOpen then (cb1, Some CircuitOpenError)
         else if cb_state cb1 = StateHalfOpen \<and> MaxRequests st \<le> Requests (cb_counts cb1)
           then (cb1, Some CircuitOpenError)
         else (cb1\<lparr>cb_counts := (cb_counts cb1)\<lparr>Requests := Requests (cb_counts cb1) + 1\<rparr>\<rparr>,
               None))"

text \<open>
  Modelled from the spec: the breaker's accounting step is missing from the files. "Each
  failed guarded call increments a consecutive-failure counter; when it exceeds a
  threshold, transition to Open. A trial success transitions back to Closed (counters
  reset); a trial failure transitions back to Open and restarts the cooldown" (section
  4.2). Whether the counter exceeds the threshold is the \<open>ReadyToTrip\<close> of the settings.
\<close>

definition afterRequest ::
  "Settings \<Rightarrow> CircuitBreaker \<Rightarrow> int \<Rightarrow> bool \<Rightarrow> CircuitBreaker" where
  "afterRequest st cb now success =
     (if cb_state cb = StateClosed then
        (if success then
           cb\<lparr>cb_counts := (cb_counts cb)
                \<lparr>ConsecutiveSuccesses := ConsecutiveSuccesses (cb_counts cb) + 1,
                 ConsecutiveFailures := 0\<rparr>\<rparr>
         else
           (let counts = (cb_counts cb)
                  \<lparr>ConsecutiveFailures := ConsecutiveFailures (cb_counts cb) + 1,
                   ConsecutiveSuccesses := 0\<rparr>
            in if ReadyToTrip st counts then setState st StateOpen now cb
               else cb\<lparr>cb_counts := counts\<rparr>))
      else if cb_state cb = StateHalfOpen then
        (if success then setState st StateClosed now cb else setState st StateOpen now cb)
      else cb)"

text \<open>
  Modelled from the spec: \<open>CircuitBreaker.Execute\<close> is missing from the files.
  "execute(operation) gives Result, CircuitOpenError or the operation's own error"
  (section 4.2). The operation is run only when the breaker admits the call; the second
  component is what the operation produced, \<open>None\<close> when it was not run.
\<close>

definition Execute ::
  "Settings \<Rightarrow> CircuitBreaker \<Rightarrow> int \<Rightarrow> (unit \<Rightarrow> error option \<times> 'a) \<Rightarrow>
   error option \<times> 'a option \<times> CircuitBreaker" where
  "Execute st cb now operation =
     (case beforeRequest st cb now of
        (cb1, Some err) \<Rightarrow> (Some err, None, cb1)
      | (cb1, None) \<Rightarrow>
          (case operation () of
             (err, produced) \<Rightarrow> (err, Some produced, afterRequest st cb1 now (err = None))))"

text \<open>
  \<open>PublishAlert\<close>: \<open>publishWithRetry\<close> run through the breaker. What the operation
  produces is its events and the state of \<open>reconnectCh\<close>.
\<close>

definition PublishAlert ::
  "CircuitBreaker \<Rightarrow> int \<Rightarrow> RabbitMQPublisher \<Rightarrow> (AlertEvent \<Rightarrow> error + string) \<Rightarrow> Time \<Rightarrow>
   (nat \<Rightarrow> attempt) \<Rightarrow> uuid \<Rightarrow> Measurement \<Rightarrow> nat \<Rightarrow>
   error option \<times> (publisher_event list \<times> nat) option \<times> CircuitBreaker" where
  "PublishAlert cb clock p json_Marshal now turn babyID measurement rc =
     Execute rabbitmq_settings cb clock
       (\<lambda>u. case publishWithRetry p json_Marshal now turn babyID measurement rc of
              (err, evs, rc') \<Rightarrow> (err, (evs, rc')))"

text \<open>
  A run of guarded calls that all fail with the same error, one per clock reading: the
  breaker after the run and, for each call, whether the operation was run.
\<close>

fun failing_calls ::
  "Settings \<Rightarrow> CircuitBreaker \<Rightarrow> int list \<Rightarrow> error \<Rightarrow> CircuitBreaker \<times> bool list" where
  "failing_calls st cb [] e = (cb, [])"
| "failing_calls st cb (t # ts) e =
     (case Execute st cb t (\<lambda>u. (Some e, ())) of
        (err, produced, cb1) \<Rightarrow>
          (case failing_calls st cb1 ts e of
             (cb2, invoked) \<Rightarrow> (cb2, (produced \<noteq> None) # invoked)))"

section \<open>Consumer lifecycle (baby_consumer.go: StartConsuming, the loop, Close)\<close>

type_synonym Context = nat

record BabyConsumer =
  c_conn :: "handle option"
  c_channel :: "handle option"
  c_queueName :: string
  c_reconnectCh :: nat
  c_stopReconnect_closed :: bool
  c_maxRetries :: nat
  c_retryDelay :: Duration
  c_consumingCtx :: "Context option"
  c_isConsuming :: bool

text \<open>The consumer \<open>NewBabyConsumer\<close> builds once \<open>connect\<close> has succeeded.\<close>

definition NewBabyConsumer :: "string \<Rightarrow> BabyConsumer" where
  "NewBabyConsumer queueName =
     \<lparr>c_conn = Some Open, c_channel = Some Open,
      c_queueName = (if queueName = [] then ''baby.creation.requests'' else queueName),
      c_reconnectCh = 0, c_stopReconnect_closed = False,
      c_maxRetries = 3, c_retryDelay = 1 * Second,
      c_consumingCtx = None, c_isConsuming = False\<rparr>"

text \<open>
  What \<open>StartConsuming\<close> does besides changing the consumer: log lines, the \<open>Qos\<close> and
  \<open>Consume\<close> calls on the channel, and the start of the goroutine that runs the
  consumption loop for a context.
\<close>

datatype start_event =
    StartLog string
  | ChannelQos nat nat bool
  | ChannelConsume string string
  | GoConsumeLoop Context

text \<open>
  \<open>StartConsuming\<close>. The errors of \<open>channel.Qos\<close> and \<open>channel.Consume\<close> and the
  consumer tag (built from \<open>time.Now().UnixNano()\<close>) are parameters. The result is the
  error returned, the consumer afterwards and the events.
\<close>

definition StartConsuming ::
  "error option \<Rightarrow> error option \<Rightarrow> string \<Rightarrow> BabyConsumer \<Rightarrow> Context \<Rightarrow>
   error option \<times> BabyConsumer \<times> start_event list" where
  "StartConsuming qos_err consume_err consumerTag c ctx =
     (if c_isConsuming c then
        (None, c,
         [StartLog ''Baby consumer is already running in this pod, skipping duplicate start''])
      else
        (let c1 = c\<lparr>c_isConsuming := True, c_consumingCtx := Some ctx\<rparr>;
             channel = c_channel c1;
             conn = c_conn c1
         in if channel = None \<or> channel = Some Closed \<or> conn = None \<or> conn = Some Closed then
              (Some (errorString ''RabbitMQ connection is closed''),
               c1\<lparr>c_isConsuming := False\<rparr>, [])
            else
              (case qos_err of
                 Some err \<Rightarrow>
                   (Some (Errorf_w ''failed to set QoS: '' (Some err)),
                    c1\<lparr>c_isConsuming := False\<rparr>, [ChannelQos 1 0 False])
               | None \<Rightarrow>
                   (case consume_err of
                      Some err \<Rightarrow>
                        (Some (Errorf_w ''failed to register consumer: '' (Some err)),
                         c1\<lparr>c_isConsuming := False\<rparr>,
                         [ChannelQos 1 0 False, ChannelConsume (c_queueName c1) consumerTag])
                    | None \<Rightarrow>
                        (None, c1,
                         [ChannelQos 1 0 False, ChannelConsume (c_queueName c1) consumerTag,
                          StartLog ''Baby consumer started'', GoConsumeLoop ctx])))))"

fun is_loop_start :: "start_event \<Rightarrow> bool" where
  "is_loop_start (GoConsumeLoop ctx) = True"
| "is_loop_start e = False"

fun is_registration :: "start_event \<Rightarrow> bool" where
  "is_registration (ChannelConsume queue tag) = True"
| "is_registration e = False"

text \<open>
  One turn of the consumption loop's \<open>select\<close>: the context is done, the delivery channel
  is closed, or a message arrives.
\<close>

datatype loop_input = CtxDone | MsgsClosed | Delivery string

text \<open>
  After the turn the loop goes on, has returned (the deferred function has then cleared
  \<open>isConsuming\<close>), or is blocked in the send \<open>c.reconnectCh <- true\<close>.
\<close>

datatype loop_status = Continues | Exits | BlockedOnReconnectCh

definition consume_turn ::
  "(string \<Rightarrow> error + BabyCreationRequest) \<Rightarrow> (string \<Rightarrow> error + uuid) \<Rightarrow>
   (string \<Rightarrow> string \<Rightarrow> uuid \<Rightarrow> uuid \<Rightarrow> bool \<Rightarrow> error + Baby) \<Rightarrow> error option \<Rightarrow>
   BabyConsumer \<Rightarrow> loop_input \<Rightarrow> loop_status \<times> BabyConsumer \<times> consumer_event list" where
  "consume_turn json_Unmarshal uuid_Parse babyService_CreateBaby ack_err c input =
     (case input of
        CtxDone \<Rightarrow>
          (Exits, c\<lparr>c_isConsuming := False\<rparr>, [Log ''Baby consumer context cancelled''])
      | MsgsClosed \<Rightarrow>
          (case blocking_send (c_reconnectCh c) of
             Some buffered \<Rightarrow>
               (Exits, c\<lparr>c_reconnectCh := buffered, c_isConsuming := False\<rparr>,
                [Log ''Baby consumer channel closed, attempting reconnection...''])
           | None \<Rightarrow>
               (BlockedOnReconnectCh, c,
                [Log ''Baby consumer channel closed, attempting reconnection...'']))
      | Delivery body \<Rightarrow>
          (Continues, c,
           processMessage json_Unmarshal uuid_Parse babyService_CreateBaby ack_err body))"

text \<open>
  The failure branch of the consumer's \<open>handleReconnection\<close>, after \<open>connect\<close> has
  returned an error: log, sleep five seconds, then \<open>c.reconnectCh <- true\<close>. The consumer
  is taken as it is when the sleep ends.
\<close>

definition handleReconnection_failed ::
  "BabyConsumer \<Rightarrow> loop_status \<times> BabyConsumer \<times> publisher_event list" where
  "handleReconnection_failed c =
     (case blocking_send (c_reconnectCh c) of
        Some buffered \<Rightarrow>
          (Continues, c\<lparr>c_reconnectCh := buffered\<rparr>,
           [PubLog ''Reconnection failed'', Sleep (5 * Second)])
      | None \<Rightarrow>
          (BlockedOnReconnectCh, c, [PubLog ''Reconnection failed'', Sleep (5 * Second)]))"

text \<open>
  \<open>Close\<close> of the consumer. The errors of \<open>channel.Close()\<close> and \<open>conn.Close()\<close> are
  parameters; the handles are closed afterwards whatever they return.
\<close>

definition BabyConsumer_Close ::
  "error option \<Rightarrow> error option \<Rightarrow> BabyConsumer \<Rightarrow>
   (error option \<times> BabyConsumer \<times> consumer_event list) outcome" where
  "BabyConsumer_Close channel_close_err conn_close_err c =
     (if c_stopReconnect_closed c then Panics ''close of closed channel''
      else
        (let c1 = c\<lparr>c_stopReconnect_closed := True\<rparr>;
             c2 = c1\<lparr>c_isConsuming := False\<rparr>;
             close_channel = (c_channel c2 \<noteq> None \<and> c_channel c2 \<noteq> Some Closed);
             c3 = (if close_channel then c2\<lparr>c_channel := Some Closed\<rparr> else c2);
             log_channel = (if close_channel \<and> channel_close_err \<noteq> None
                            then [Log ''Error closing RabbitMQ channel''] else []);
             close_conn = (c_conn c3 \<noteq> None \<and> c_conn c3 \<noteq> Some Closed);
             c4 = (if close_conn then c3\<lparr>c_conn := Some Closed\<rparr> else c3);
             log_conn = (if close_conn \<and> conn_close_err \<noteq> None
                         then [Log ''Error closing RabbitMQ connection''] else [])
         in Returns (None, c4, log_channel @ log_conn @ [Log ''Baby consumer closed''])))"

section \<open>The consumer's goroutines, step by step\<close>

text \<open>
  The consumer runs several goroutines over one \<open>BabyConsumer\<close>: the reconnection
  handler started by \<open>NewBabyConsumer\<close>, one consumption loop per successful
  \<open>StartConsuming\<close>, and the callers of \<open>StartConsuming\<close>. The handler is waiting in
  its \<open>select\<close>, inside \<open>connect\<close> before or after \<open>Dial\<close> and \<open>Channel\<close> have
  stored the new handles, asleep after a failed \<open>connect\<close>, or blocked in its send.
\<close>

datatype handler_state = Waiting | Connecting | Declaring | Sleeping | BlockedInSend

record consumer_system =
  sys_consumer :: BabyConsumer
  sys_loops :: nat
  sys_handler :: handler_state

text \<open>Closing the connection and the channel, where there is one.\<close>

definition close_handles :: "BabyConsumer \<Rightarrow> BabyConsumer" where
  "close_handles c =
     c\<lparr>c_conn := (if c_conn c = None then None else Some Closed),
       c_channel := (if c_channel c = None then None else Some Closed)\<rparr>"

text \<open>
  Steps the goroutines can take, each a stretch of the source between two points where
  another goroutine may run:
  \<^item> a call of \<open>StartConsuming\<close> that registers a consumer and starts a loop;
  \<^item> the broker connection is lost, which closes both handles;
  \<^item> a loop reads \<open>ok = false\<close> from its closed delivery channel, sends on
    \<open>reconnectCh\<close> and returns;
  \<^item> the handler receives a request, closes the handles and enters \<open>connect\<close>;
  \<^item> \<open>connect\<close> stores the handles \<open>Dial\<close> and \<open>Channel\<close> returned;
  \<^item> \<open>QueueDeclare\<close> fails, \<open>connect\<close> closes both handles and returns the error;
  \<^item> the handler, after its sleep, sends on \<open>reconnectCh\<close>.
  The relation lists steps that can happen, not all of them.
\<close>

inductive step :: "consumer_system \<Rightarrow> consumer_system \<Rightarrow> bool" where
  start_call:
    "StartConsuming None None tag (sys_consumer s) ctx = (None, c', evs)
     \<Longrightarrow> GoConsumeLoop ctx \<in> set evs
     \<Longrightarrow> step s (s\<lparr>sys_consumer := c', sys_loops := sys_loops s + 1\<rparr>)"
| connection_lost:
    "step s (s\<lparr>sys_consumer := close_handles (sys_consumer s)\<rparr>)"
| loop_sees_close:
    "0 < sys_loops s \<Longrightarrow> c_channel (sys_consumer s) = Some Closed
     \<Longrightarrow> consume_turn U P S a (sys_consumer s) MsgsClosed = (Exits, c', evs)
     \<Longrightarrow> step s (s\<lparr>sys_consumer := c', sys_loops := sys_loops s - 1\<rparr>)"
| handler_receives:
    "sys_handler s = Waiting \<Longrightarrow> 0 < c_reconnectCh (sys_consumer s)
     \<Longrightarrow> step s
           (s\<lparr>sys_consumer := close_handles
                 ((sys_consumer s)\<lparr>c_reconnectCh := c_reconnectCh (sys_consumer s) - 1\<rparr>),
              sys_handler := Connecting\<rparr>)"
| connect_stores_handles:
    "sys_handler s = Connecting
     \<Longrightarrow> step s
           (s\<lparr>sys_consumer := (sys_consumer s)\<lparr>c_conn := Some Open, c_channel := Some Open\<rparr>,
              sys_handler := Declaring\<rparr>)"
| declare_fails:
    "sys_handler s = Declaring
     \<Longrightarrow> step s (s\<lparr>sys_consumer := close_handles (sys_consumer s), sys_handler := Sleeping\<rparr>)"
| handler_requeues:
    "sys_handler s = Sleeping
     \<Longrightarrow> handleReconnection_failed (sys_consumer s) = (status, c', evs)
     \<Longrightarrow> step s
           (s\<lparr>sys_consumer := c',
              sys_handler := (if status = BlockedOnReconnectCh then BlockedInSend
                              else Waiting)\<rparr>)"

inductive reachable :: "consumer_system \<Rightarrow> bool" where
  new: "reachable \<lparr>sys_consumer = NewBabyConsumer q, sys_loops = 0, sys_handler = Waiting\<rparr>"
| after: "reachable s \<Longrightarrow> step s t \<Longrightarrow> reachable t"

section \<open>Sample inputs for concrete runs\<close>

text \<open>A measurement with a chosen type and value; the other fields are immaterial here.\<close>

definition sample_measurement :: "string \<Rightarrow> float64 \<Rightarrow> SafetyStatus \<Rightarrow> Measurement" where
  "sample_measurement t v st =
     \<lparr>m_ID = 1, m_ParentID = 2, m_BabyID = 3, m_Type = t, m_Value = v, m_SafetyStatus = st,
      m_Note = [], m_Timestamp = 5, m_CreatedAt = 5, m_FeedingType = [], m_VolumeML = None,
      m_Position = None, m_Side = None, m_LeftDuration = None, m_RightDuration = None,
      m_Duration = None, m_ValueCelsius = None, m_DiaperStatus = None\<rparr>"

text \<open>A decoder, a parser and a repository for concrete runs.\<close>

definition sample_user_id :: string where
  "sample_user_id = ''123e4567-e89b-12d3-a456-426614174000''"

definition sample_body :: string where
  "sample_body = ''{\"user_id\": \"123e4567-e89b-12d3-a456-426614174000\", \"last_name\": \"Smith\", \"room_number\": \"101\"}''"

definition sample_body_empty_name :: string where
  "sample_body_empty_name = ''{\"user_id\": \"123e4567-e89b-12d3-a456-426614174000\", \"last_name\": \"\", \"room_number\": \"101\"}''"

definition sample_Unmarshal :: "string \<Rightarrow> error + BabyCreationRequest" where
  "sample_Unmarshal body =
     (if body = sample_body
        then Inr \<lparr>UserID = sample_user_id, LastName = ''Smith'', RoomNumber = ''101''\<rparr>
      else if body = sample_body_empty_name
        then Inr \<lparr>UserID = sample_user_id, LastName = [], RoomNumber = ''101''\<rparr>
      else Inl (errorString ''invalid character''))"

definition sample_uuid_Parse :: "string \<Rightarrow> error + uuid" where
  "sample_uuid_Parse s =
     (if s = sample_user_id then Inr 0x123e4567e89b12d3a456426614174000
      else Inl (errorString ''invalid UUID length''))"

definition repo_ok :: "Baby \<Rightarrow> error option" where
  "repo_ok baby = None"

definition repo_down :: "Baby \<Rightarrow> error option" where
  "repo_down baby = Some (errorString ''connection refused'')"

text \<open>
  A service whose repositories accept everything, around a given publisher; and two
  publishers, one that fails and one that succeeds.
\<close>

definition sample_env :: "(uuid \<Rightarrow> Measurement \<Rightarrow> error option) \<Rightarrow> service_env" where
  "sample_env publish =
     \<lparr>babyRepo_BabyExists = (\<lambda>b. Inr True),
      babyRepo_CheckBabyOwnership = (\<lambda>b u. Inr True),
      measurementRepo_CreateMeasurement = (\<lambda>m. None),
      alertPublisher_PublishAlert = publish,
      new_uuid = 11, now_timestamp = 100, now_created = 101, elapsed = 5000000\<rparr>"

definition publish_fails :: "uuid \<Rightarrow> Measurement \<Rightarrow> error option" where
  "publish_fails b m = Some (errorString ''circuit breaker is open'')"

definition publish_ok :: "uuid \<Rightarrow> Measurement \<Rightarrow> error option" where
  "publish_ok b m = None"

definition sample_fever :: Measurement where
  "sample_fever =
     \<lparr>m_ID = 11, m_ParentID = 4, m_BabyID = 3, m_Type = ''temperature'', m_Value = Fin 39,
      m_SafetyStatus = SafetyStatusRed, m_Note = [], m_Timestamp = 100, m_CreatedAt = 101,
      m_FeedingType = [], m_VolumeML = None, m_Position = None, m_Side = None,
      m_LeftDuration = None, m_RightDuration = None, m_Duration = None,
      m_ValueCelsius = Some (Fin 39), m_DiaperStatus = None\<rparr>"

text \<open>Turns of the retry loop: a connection that is gone, and a broker that refuses.\<close>

definition turn_dead :: "nat \<Rightarrow> attempt" where
  "turn_dead i = \<lparr>at_channel = None, at_conn = None, at_publish_err = None, at_latency = 0\<rparr>"

definition turn_refused :: "nat \<Rightarrow> attempt" where
  "turn_refused i =
     \<lparr>at_channel = Some Open, at_conn = Some Open,
      at_publish_err = Some (errorString ''channel/connection is not open''), at_latency = 0\<rparr>"

definition marshal_ok :: "AlertEvent \<Rightarrow> error + string" where
  "marshal_ok event = Inr ''{}''"

section \<open>Collected definitions for the proofs\<close>

lemmas measurement_type_defs =
  MeasurementTypeFeeding_def MeasurementTypeWeight_def MeasurementTypeTemperature_def
  MeasurementTypeDiaper_def

lemmas temperature_defs =
  TemperatureNormalMin_def TemperatureNormalMax_def TemperatureYellowMin_def
  TemperatureYellowMax_def

lemmas f64_cmp_defs = f64_gt_def f64_le_def f64_ge_def

lemmas sample_defs =
  sample_Unmarshal_def sample_uuid_Parse_def sample_body_def sample_body_empty_name_def
  sample_user_id_def repo_ok_def repo_down_def

section \<open>Properties\<close>

text \<open>
  C1. The alert type is a function of the measurement's type and value alone. It is
  \<open>high_temperature_critical\<close> for a temperature strictly above 38.0,
  \<open>low_temperature_critical\<close> for a temperature strictly below 36.0, \<open>invalid_weight\<close>
  for a weight, and \<open>critical_measurement\<close> in every other case: a temperature that is
  neither above 38.0 nor below 36.0 (the values of [36.0, 38.0], and NaN), and every type
  other than temperature and weight.
\<close>

theorem alertType_derivation:
  "TemperatureYellowMax = Fin 38 \<and> TemperatureYellowMin = Fin 36
   \<and> (m_Type m = ''temperature'' \<and> f64_gt (m_Value m) (Fin 38)
        \<longrightarrow> alertType m = ''high_temperature_critical'')
   \<and> (m_Type m = ''temperature'' \<and> f64_lt (m_Value m) (Fin 36)
        \<longrightarrow> alertType m = ''low_temperature_critical'')
   \<and> (m_Type m = ''weight'' \<longrightarrow> alertType m = ''invalid_weight'')
   \<and> (\<not> (m_Type m = ''temperature'' \<and> f64_gt (m_Value m) (Fin 38))
        \<and> \<not> (m_Type m = ''temperature'' \<and> f64_lt (m_Value m) (Fin 36))
        \<and> m_Type m \<noteq> ''weight''
        \<longrightarrow> alertType m = ''critical_measurement'')
   \<and> (m_Type m = ''temperature'' \<and> f64_ge (m_Value m) (Fin 36) \<and> f64_le (m_Value m) (Fin 38)
        \<longrightarrow> alertType m = ''critical_measurement'')
   \<and> (m_Type m = m_Type m' \<and> m_Value m = m_Value m' \<longrightarrow> alertType m = alertType m')"
proof -
  have gt_excl: "f64_gt v (Fin 38) \<Longrightarrow> \<not> f64_lt v (Fin 36)" for v
    by (cases v) (auto simp: f64_cmp_defs)
  have mid: "f64_ge v (Fin 36) \<Longrightarrow> f64_le v (Fin 38)
      \<Longrightarrow> \<not> f64_gt v (Fin 38) \<and> \<not> f64_lt v (Fin 36)" for v
    by (cases v) (auto simp: f64_cmp_defs)
  show ?thesis
    using gt_excl [of "m_Value m"] mid [of "m_Value m"]
    by (auto simp: alertType_def measurement_type_defs temperature_defs)
qed

theorem alertType_derivation_witness:
  "alertType (sample_measurement ''temperature'' (Fin 39) SafetyStatusRed)
     = ''high_temperature_critical''
   \<and> alertType (sample_measurement ''temperature'' (Fin 35.5) SafetyStatusRed)
     = ''low_temperature_critical''
   \<and> alertType (sample_measurement ''weight'' (Fin 3200) SafetyStatusGreen) = ''invalid_weight''
   \<and> alertType (sample_measurement ''temperature'' (Fin 37) SafetyStatusGreen)
     = ''critical_measurement''
   \<and> alertType (sample_measurement ''temperature'' NaN SafetyStatusRed)
     = ''critical_measurement''
   \<and> alertType (sample_measurement ''feeding'' (Fin 120) SafetyStatusGreen)
     = ''critical_measurement''"
proof -
  let ?hot = "sample_measurement ''temperature'' (Fin 39) SafetyStatusRed"
  let ?cold = "sample_measurement ''temperature'' (Fin 35.5) SafetyStatusRed"
  let ?weight = "sample_measurement ''weight'' (Fin 3200) SafetyStatusGreen"
  let ?normal = "sample_measurement ''temperature'' (Fin 37) SafetyStatusGreen"
  let ?nan = "sample_measurement ''temperature'' NaN SafetyStatusRed"
  let ?feeding = "sample_measurement ''feeding'' (Fin 120) SafetyStatusGreen"
  have hot: "alertType ?hot = ''high_temperature_critical''"
    using alertType_derivation [of ?hot ?hot]
    by (simp add: sample_measurement_def f64_cmp_defs)
  have cold: "alertType ?cold = ''low_temperature_critical''"
    using alertType_derivation [of ?cold ?cold]
    by (simp add: sample_measurement_def f64_cmp_defs)
  have weight: "alertType ?weight = ''invalid_weight''"
    using alertType_derivation [of ?weight ?weight]
    by (simp add: sample_measurement_def f64_cmp_defs)
  have normal: "alertType ?normal = ''critical_measurement''"
    using alertType_derivation [of ?normal ?normal]
    by (simp add: sample_measurement_def f64_cmp_defs)
  have nan: "alertType ?nan = ''critical_measurement''"
    using alertType_derivation [of ?nan ?nan]
    by (simp add: sample_measurement_def f64_cmp_defs)
  have feeding: "alertType ?feeding = ''critical_measurement''"
    using alertType_derivation [of ?feeding ?feeding]
    by (simp add: sample_measurement_def f64_cmp_defs)
  show ?thesis
    by (intro conjI hot cold weight normal nan feeding)
qed

text \<open>
  C2. Every run of \<open>processMessage\<close> takes exactly one acknowledgement decision. When
  the body does not deserialize, or \<open>user_id\<close>, \<open>last_name\<close> or \<open>room_number\<close> is
  empty, or \<open>user_id\<close> does not parse as a UUID, the decision is \<open>Nack(false, false)\<close>
  (no requeue) and the creation service is not called. When the payload is valid, the
  service is called once; its error gives \<open>Nack(false, true)\<close> (requeue), its success
  gives \<open>Ack(false)\<close>.
\<close>

theorem processMessage_outcomes:
  fixes U P S a body
  shows
  "((case U body of Inl e \<Rightarrow> True
     | Inr req \<Rightarrow> UserID req = [] \<or> LastName req = [] \<or> RoomNumber req = []
         \<or> (\<exists>e. P (UserID req) = Inl e))
     \<longrightarrow> decisions (processMessage U P S a body) = [Nack False False]
       \<and> service_calls (processMessage U P S a body) = [])
   \<and> (\<forall>req pid.
        U body = Inr req \<and> UserID req \<noteq> [] \<and> LastName req \<noteq> [] \<and> RoomNumber req \<noteq> []
        \<and> P (UserID req) = Inr pid
        \<longrightarrow> service_calls (processMessage U P S a body)
              = [CreateBabyCall (LastName req) (RoomNumber req) pid uuid_Nil True]
          \<and> decisions (processMessage U P S a body)
              = (case S (LastName req) (RoomNumber req) pid uuid_Nil True of
                   Inl e \<Rightarrow> [Nack False True]
                 | Inr baby \<Rightarrow> [Ack False]))
   \<and> length (decisions (processMessage U P S a body)) = 1"
  by (auto simp: processMessage_def decisions_def service_calls_def Let_def
      split: sum.splits option.splits)

theorem processMessage_outcomes_witness:
  "decisions (processMessage sample_Unmarshal sample_uuid_Parse (CreateBaby repo_ok 7 9) None
      sample_body_empty_name) = [Nack False False]
   \<and> service_calls (processMessage sample_Unmarshal sample_uuid_Parse (CreateBaby repo_ok 7 9)
      None sample_body_empty_name) = []
   \<and> decisions (processMessage sample_Unmarshal sample_uuid_Parse (CreateBaby repo_down 7 9)
      None sample_body) = [Nack False True]
   \<and> decisions (processMessage sample_Unmarshal sample_uuid_Parse (CreateBaby repo_ok 7 9)
      None sample_body) = [Ack False]"
proof -
  let ?req = "\<lparr>UserID = sample_user_id, LastName = ''Smith'', RoomNumber = ''101''\<rparr>"
  let ?pid = "0x123e4567e89b12d3a456426614174000 :: uuid"
  have poison: "decisions (processMessage sample_Unmarshal sample_uuid_Parse
        (CreateBaby repo_ok 7 9) None sample_body_empty_name) = [Nack False False]
      \<and> service_calls (processMessage sample_Unmarshal sample_uuid_Parse
        (CreateBaby repo_ok 7 9) None sample_body_empty_name) = []"
    using processMessage_outcomes [where U = sample_Unmarshal and P = sample_uuid_Parse
        and S = "CreateBaby repo_ok 7 9" and a = None and body = sample_body_empty_name,
        THEN conjunct1]
    by (simp add: sample_defs)
  have failed: "decisions (processMessage sample_Unmarshal sample_uuid_Parse
        (CreateBaby repo_down 7 9) None sample_body) = [Nack False True]"
    using processMessage_outcomes [where U = sample_Unmarshal and P = sample_uuid_Parse
        and S = "CreateBaby repo_down 7 9" and a = None and body = sample_body,
        THEN conjunct2, THEN conjunct1, rule_format, of ?req ?pid]
    by (simp add: sample_defs CreateBaby_def Errorf_w_def)
  have acked: "decisions (processMessage sample_Unmarshal sample_uuid_Parse
        (CreateBaby repo_ok 7 9) None sample_body) = [Ack False]"
    using processMessage_outcomes [where U = sample_Unmarshal and P = sample_uuid_Parse
        and S = "CreateBaby repo_ok 7 9" and a = None and body = sample_body,
        THEN conjunct2, THEN conjunct1, rule_format, of ?req ?pid]
    by (simp add: sample_defs CreateBaby_def)
  show ?thesis
    using poison failed acked by blast
qed

text \<open>
  C4. For a body that decodes to a request with a non-empty \<open>last_name\<close> and
  \<open>room_number\<close> and a \<open>user_id\<close> that parses as a UUID, \<open>processMessage\<close> calls the
  creation service exactly once, with the message's last name and room number, the parsed
  UUID as parent, \<open>uuid.Nil\<close> as acting user and the admin flag \<open>true\<close>. When the
  service succeeds the message is acknowledged exactly once; an error from \<open>Ack\<close> only
  adds a log line to the same run. With \<open>CreateBaby\<close> of the baby service behind the
  interface, these arguments pass its role and input checks, so the outcome is the
  repository's.
\<close>

theorem processMessage_valid_request:
  assumes "U body = Inr req"
    and "UserID req \<noteq> []" and "LastName req \<noteq> []" and "RoomNumber req \<noteq> []"
    and "P (UserID req) = Inr pid"
  shows
  "service_calls (processMessage U P S a body)
     = [CreateBabyCall (LastName req) (RoomNumber req) pid uuid_Nil True]
   \<and> (\<forall>baby. S (LastName req) (RoomNumber req) pid uuid_Nil True = Inr baby
        \<longrightarrow> decisions (processMessage U P S a body) = [Ack False]
          \<and> (\<forall>e. processMessage U P S (Some e) body
                = processMessage U P S None body
                  @ [Log ''Failed to acknowledge message after baby creation'']))
   \<and> CreateBaby repo new_id now (LastName req) (RoomNumber req) pid uuid_Nil True
       = (let baby = \<lparr>b_ID = new_id, b_LastName = LastName req, b_RoomNumber = RoomNumber req,
                       b_ParentUserID = pid, b_CreatedAt = now\<rparr>
          in case repo baby of
               Some err \<Rightarrow> Inl (wrapError ''failed to create baby: '' err)
             | None \<Rightarrow> Inr baby)"
  using assms
  by (auto simp: processMessage_def decisions_def service_calls_def Let_def CreateBaby_def
      Errorf_w_def split: sum.splits option.splits)

theorem processMessage_valid_request_witness:
  "service_calls (processMessage sample_Unmarshal sample_uuid_Parse (CreateBaby repo_ok 7 9)
       (Some (errorString ''channel closed'')) sample_body)
     = [CreateBabyCall ''Smith'' ''101'' 0x123e4567e89b12d3a456426614174000 uuid_Nil True]
   \<and> decisions (processMessage sample_Unmarshal sample_uuid_Parse (CreateBaby repo_ok 7 9)
       (Some (errorString ''channel closed'')) sample_body) = [Ack False]"
proof -
  let ?req = "\<lparr>UserID = sample_user_id, LastName = ''Smith'', RoomNumber = ''101''\<rparr>"
  let ?pid = "0x123e4567e89b12d3a456426614174000 :: uuid"
  have u: "sample_Unmarshal sample_body = Inr ?req"
    by (simp add: sample_defs)
  have p: "sample_uuid_Parse (UserID ?req) = Inr ?pid"
    by (simp add: sample_defs)
  have s: "CreateBaby repo_ok 7 9 (LastName ?req) (RoomNumber ?req) ?pid uuid_Nil True
      = Inr \<lparr>b_ID = 7, b_LastName = ''Smith'', b_RoomNumber = ''101'', b_ParentUserID = ?pid,
             b_CreatedAt = 9\<rparr>"
    by (simp add: CreateBaby_def repo_ok_def)
  note t = processMessage_valid_request [where U = sample_Unmarshal and P = sample_uuid_Parse
      and S = "CreateBaby repo_ok 7 9" and a = "Some (errorString ''channel closed'')"
      and body = sample_body and req = ?req and pid = ?pid, OF u _ _ _ p]
  have calls: "service_calls (processMessage sample_Unmarshal sample_uuid_Parse
        (CreateBaby repo_ok 7 9) (Some (errorString ''channel closed'')) sample_body)
      = [CreateBabyCall ''Smith'' ''101'' ?pid uuid_Nil True]"
    using t [THEN conjunct1] by (simp add: sample_user_id_def)
  have acks: "decisions (processMessage sample_Unmarshal sample_uuid_Parse
        (CreateBaby repo_ok 7 9) (Some (errorString ''channel closed'')) sample_body)
      = [Ack False]"
    using t [THEN conjunct2, THEN conjunct1, rule_format, OF _ _ _ s, THEN conjunct1]
    by (simp add: sample_user_id_def)
  show ?thesis
    using calls acks by blast
qed

lemmas service_defs =
  CreateMeasurementWithDetails_def returned_def logged_def background_def

lemma set_type_fields_keeps:
  "set_type_fields m req = Inr m'
   \<Longrightarrow> m_Type m' = m_Type m \<and> m_SafetyStatus m' = m_SafetyStatus m"
  by (auto simp: set_type_fields_def setFeedingFields_def setTemperatureFields_def
      setDiaperFields_def Let_def split: if_splits option.splits)

text \<open>
  Either no goroutine is started, or the one started publishes a measurement of the
  request's type whose status, computed from the request's type and value, is Red.
\<close>

lemma background_cases:
  "background (CreateMeasurementWithDetails env babyID req userID isAdmin) = []
   \<or> (\<exists>m. background (CreateMeasurementWithDetails env babyID req userID isAdmin)
            = alert_goroutine env babyID m
          \<and> m_Type m = req_Type req \<and> m_SafetyStatus m = SafetyStatusRed
          \<and> CalculateSafetyStatus (req_Type req) (req_Value req) = SafetyStatusRed)"
  by (auto simp: service_defs Let_def dest!: set_type_fields_keeps
      split: sum.splits option.splits)

lemma publish_in_goroutine:
  "PublishAlertCall b m \<in> set (alert_goroutine env babyID m') \<longleftrightarrow> b = babyID \<and> m = m'"
  by (auto simp: alert_goroutine_def split: option.splits)

lemma returned_ignores_publisher:
  "returned (CreateMeasurementWithDetails (env\<lparr>alertPublisher_PublishAlert := p\<rparr>)
      babyID req userID isAdmin)
   = returned (CreateMeasurementWithDetails env babyID req userID isAdmin)"
  by (simp add: service_defs Let_def split: sum.splits option.splits)

lemma logged_ignores_publisher:
  "logged (CreateMeasurementWithDetails (env\<lparr>alertPublisher_PublishAlert := p\<rparr>)
      babyID req userID isAdmin)
   = logged (CreateMeasurementWithDetails env babyID req userID isAdmin)"
  by (simp add: service_defs Let_def split: sum.splits option.splits)

text \<open>
  C7. What \<open>CreateMeasurementWithDetails\<close> returns, the measurement with a \<open>nil\<close>
  error or an error, and what it logs before returning do not depend on the publisher,
  so they are the same whether \<open>PublishAlert\<close> fails or succeeds. \<open>PublishAlert\<close> is
  called only in the goroutine, only for the baby of the call and only with a measurement
  whose safety status, computed from the request's type and value, is Red; a request whose
  computed status is Green or Yellow starts no goroutine.
\<close>

theorem publish_failure_absorbed:
  "returned (CreateMeasurementWithDetails (env\<lparr>alertPublisher_PublishAlert := p\<rparr>)
      babyID req userID isAdmin)
   = returned (CreateMeasurementWithDetails (env\<lparr>alertPublisher_PublishAlert := q\<rparr>)
      babyID req userID isAdmin)
   \<and> logged (CreateMeasurementWithDetails (env\<lparr>alertPublisher_PublishAlert := p\<rparr>)
      babyID req userID isAdmin)
   = logged (CreateMeasurementWithDetails (env\<lparr>alertPublisher_PublishAlert := q\<rparr>)
      babyID req userID isAdmin)
   \<and> (\<forall>b m. PublishAlertCall b m
          \<in> set (background (CreateMeasurementWithDetails env babyID req userID isAdmin))
        \<longrightarrow> b = babyID \<and> m_SafetyStatus m = SafetyStatusRed
          \<and> CalculateSafetyStatus (req_Type req) (req_Value req) = SafetyStatusRed)
   \<and> (CalculateSafetyStatus (req_Type req) (req_Value req) \<noteq> SafetyStatusRed
        \<longrightarrow> background (CreateMeasurementWithDetails env babyID req userID isAdmin) = [])"
proof -
  have same_result: "returned (CreateMeasurementWithDetails
        (env\<lparr>alertPublisher_PublishAlert := p\<rparr>) babyID req userID isAdmin)
      = returned (CreateMeasurementWithDetails
        (env\<lparr>alertPublisher_PublishAlert := q\<rparr>) babyID req userID isAdmin)"
    by (simp add: returned_ignores_publisher)
  have same_log: "logged (CreateMeasurementWithDetails
        (env\<lparr>alertPublisher_PublishAlert := p\<rparr>) babyID req userID isAdmin)
      = logged (CreateMeasurementWithDetails
        (env\<lparr>alertPublisher_PublishAlert := q\<rparr>) babyID req userID isAdmin)"
    by (simp add: logged_ignores_publisher)
  have only_red: "b = babyID \<and> m_SafetyStatus m = SafetyStatusRed
      \<and> CalculateSafetyStatus (req_Type req) (req_Value req) = SafetyStatusRed"
    if "PublishAlertCall b m
      \<in> set (background (CreateMeasurementWithDetails env babyID req userID isAdmin))" for b m
    using that background_cases [of env babyID req userID isAdmin]
    by (auto simp: publish_in_goroutine)
  have not_red: "background (CreateMeasurementWithDetails env babyID req userID isAdmin) = []"
    if "CalculateSafetyStatus (req_Type req) (req_Value req) \<noteq> SafetyStatusRed"
    using that background_cases [of env babyID req userID isAdmin] by auto
  show ?thesis
    using same_result same_log only_red not_red by blast
qed

lemmas sample_service_defs =
  sample_env_def publish_fails_def publish_ok_def sample_fever_def CreateMeasurement_def
  CreateMeasurementWithDetails_def IsValidMeasurementType_def ValidMeasurementTypes_def
  validateMeasurement_def set_type_fields_def setTemperatureFields_def alert_goroutine_def
  CalculateSafetyStatus_def measurement_type_defs temperature_defs f64_cmp_defs Second_def

lemma sample_fever_run:
  "CreateMeasurement (sample_env publish_fails) 3 ''temperature'' (Fin 39) [] 4 False
   = (Inr sample_fever, [LogMeasurement sample_fever ''created''],
      [PublishAlertCall 3 sample_fever,
       LogLine ''Failed to publish alert for Red status measurement''])"
  by (simp add: sample_service_defs Let_def)

lemma sample_fever_run_ok:
  "CreateMeasurement (sample_env publish_ok) 3 ''temperature'' (Fin 39) [] 4 False
   = (Inr sample_fever, [LogMeasurement sample_fever ''created''],
      [PublishAlertCall 3 sample_fever, LogMeasurement sample_fever ''alert_published''])"
  by (simp add: sample_service_defs Let_def)

theorem publish_failure_absorbed_witness:
  "PublishAlertCall 3 sample_fever
     \<in> set (background (CreateMeasurement (sample_env publish_fails) 3 ''temperature''
          (Fin 39) [] 4 False))
   \<and> m_SafetyStatus sample_fever = SafetyStatusRed
   \<and> CalculateSafetyStatus ''temperature'' (Fin 39) = SafetyStatusRed
   \<and> returned (CreateMeasurement (sample_env publish_fails) 3 ''temperature'' (Fin 39) [] 4 False)
     = returned (CreateMeasurement (sample_env publish_ok) 3 ''temperature'' (Fin 39) [] 4 False)
   \<and> returned (CreateMeasurement (sample_env publish_fails) 3 ''temperature'' (Fin 39) [] 4 False)
     = Inr sample_fever
   \<and> CalculateSafetyStatus ''temperature'' (Fin 37) \<noteq> SafetyStatusRed
   \<and> background (CreateMeasurement (sample_env publish_fails) 3 ''temperature'' (Fin 37) [] 4
        False) = []"
proof -
  let ?req = "\<lambda>v. \<lparr>req_Type = ''temperature'', req_Value = v, req_Note = [], req_Timestamp = 0,
      req_FeedingType = [], req_VolumeML = None, req_Position = [], req_Side = [],
      req_LeftDuration = None, req_RightDuration = None, req_Duration = None,
      req_ValueCelsius = None, req_DiaperStatus = []\<rparr>"
  have member: "PublishAlertCall 3 sample_fever
      \<in> set (background (CreateMeasurementWithDetails (sample_env publish_fails) 3
           (?req (Fin 39)) 4 False))"
    using sample_fever_run by (simp add: CreateMeasurement_def background_def)
  have red: "m_SafetyStatus sample_fever = SafetyStatusRed
      \<and> CalculateSafetyStatus ''temperature'' (Fin 39) = SafetyStatusRed"
    using publish_failure_absorbed [where env = "sample_env publish_fails" and babyID = 3
        and req = "?req (Fin 39)" and userID = 4 and isAdmin = False,
        THEN conjunct2, THEN conjunct2, THEN conjunct1, rule_format, OF member]
    by simp
  have same: "returned (CreateMeasurement (sample_env publish_fails) 3 ''temperature''
        (Fin 39) [] 4 False)
      = returned (CreateMeasurement (sample_env publish_ok) 3 ''temperature'' (Fin 39) [] 4 False)"
    using publish_failure_absorbed [where env = "sample_env publish_ok" and p = publish_fails
        and q = publish_ok and babyID = 3 and req = "?req (Fin 39)" and userID = 4
        and isAdmin = False, THEN conjunct1]
    by (simp add: CreateMeasurement_def sample_env_def)
  have result: "returned (CreateMeasurement (sample_env publish_fails) 3 ''temperature''
        (Fin 39) [] 4 False) = Inr sample_fever"
    by (simp add: sample_fever_run returned_def)
  have green: "CalculateSafetyStatus ''temperature'' (Fin 37) \<noteq> SafetyStatusRed"
    by (simp add: CalculateSafetyStatus_def measurement_type_defs temperature_defs f64_cmp_defs)
  have quiet: "background (CreateMeasurement (sample_env publish_fails) 3 ''temperature''
        (Fin 37) [] 4 False) = []"
    using publish_failure_absorbed [where env = "sample_env publish_fails" and babyID = 3
        and req = "?req (Fin 37)" and userID = 4 and isAdmin = False,
        THEN conjunct2, THEN conjunct2, THEN conjunct2, rule_format] green
    by (simp add: CreateMeasurement_def)
  show ?thesis
    using member red same result green quiet
    by (simp add: CreateMeasurement_def)
qed

text \<open>
  C10. \<open>CalculateSafetyStatus\<close> of a weight is Green for a value above zero and Yellow
  for every other value, so never Red. \<open>CreateMeasurementWithDetails\<close> therefore starts no
  goroutine for a weight request, and every measurement it hands to \<open>PublishAlert\<close> has a
  type other than weight, for which the publisher's alert type is not \<open>invalid_weight\<close>.
\<close>

theorem weight_never_alerts:
  "CalculateSafetyStatus MeasurementTypeWeight v
     = (if f64_gt v (Fin 0) then SafetyStatusGreen else SafetyStatusYellow)
   \<and> CalculateSafetyStatus MeasurementTypeWeight v \<noteq> SafetyStatusRed
   \<and> (req_Type req = MeasurementTypeWeight
        \<longrightarrow> background (CreateMeasurementWithDetails env babyID req userID isAdmin) = [])
   \<and> (\<forall>b m. PublishAlertCall b m
          \<in> set (background (CreateMeasurementWithDetails env babyID req userID isAdmin))
        \<longrightarrow> m_Type m \<noteq> MeasurementTypeWeight \<and> alertType m \<noteq> ''invalid_weight'')"
proof -
  have status: "CalculateSafetyStatus MeasurementTypeWeight v
      = (if f64_gt v (Fin 0) then SafetyStatusGreen else SafetyStatusYellow)"
    by (simp add: CalculateSafetyStatus_def measurement_type_defs)
  then have never_red: "CalculateSafetyStatus MeasurementTypeWeight w \<noteq> SafetyStatusRed" for w
    by (simp add: CalculateSafetyStatus_def measurement_type_defs)
  have quiet: "background (CreateMeasurementWithDetails env babyID req userID isAdmin) = []"
    if "req_Type req = MeasurementTypeWeight"
    using that background_cases [of env babyID req userID isAdmin] never_red [of "req_Value req"]
    by auto
  have other_type: "m_Type m \<noteq> MeasurementTypeWeight \<and> alertType m \<noteq> ''invalid_weight''"
    if "PublishAlertCall b m
      \<in> set (background (CreateMeasurementWithDetails env babyID req userID isAdmin))" for b m
  proof -
    from that background_cases [of env babyID req userID isAdmin]
    have "m_Type m = req_Type req"
      and "CalculateSafetyStatus (req_Type req) (req_Value req) = SafetyStatusRed"
      by (auto simp: publish_in_goroutine)
    then have "m_Type m \<noteq> MeasurementTypeWeight"
      using never_red [of "req_Value req"] by auto
    then show ?thesis
      by (simp add: alertType_def measurement_type_defs)
  qed
  show ?thesis
    using status never_red quiet other_type by blast
qed

theorem weight_never_alerts_witness:
  "background (CreateMeasurement (sample_env publish_ok) 3 ''weight'' (Fin 3200) [] 4 False) = []
   \<and> PublishAlertCall 3 sample_fever
     \<in> set (background (CreateMeasurement (sample_env publish_ok) 3 ''temperature'' (Fin 39) []
          4 False))
   \<and> alertType sample_fever \<noteq> ''invalid_weight''"
proof -
  let ?req = "\<lambda>t v. \<lparr>req_Type = t, req_Value = v, req_Note = [], req_Timestamp = 0,
      req_FeedingType = [], req_VolumeML = None, req_Position = [], req_Side = [],
      req_LeftDuration = None, req_RightDuration = None, req_Duration = None,
      req_ValueCelsius = None, req_DiaperStatus = []\<rparr>"
  have quiet: "background (CreateMeasurement (sample_env publish_ok) 3 ''weight'' (Fin 3200) []
        4 False) = []"
    using weight_never_alerts [where env = "sample_env publish_ok" and babyID = 3
        and req = "?req ''weight'' (Fin 3200)" and userID = 4 and isAdmin = False,
        THEN conjunct2, THEN conjunct2, THEN conjunct1]
    by (simp add: CreateMeasurement_def MeasurementTypeWeight_def)
  have member: "PublishAlertCall 3 sample_fever
      \<in> set (background (CreateMeasurementWithDetails (sample_env publish_ok) 3
           (?req ''temperature'' (Fin 39)) 4 False))"
    using sample_fever_run_ok by (simp add: CreateMeasurement_def background_def)
  have not_weight: "alertType sample_fever \<noteq> ''invalid_weight''"
    using weight_never_alerts [where env = "sample_env publish_ok" and babyID = 3
        and req = "?req ''temperature'' (Fin 39)" and userID = 4 and isAdmin = False,
        THEN conjunct2, THEN conjunct2, THEN conjunct2, rule_format, OF member]
    by simp
  show ?thesis
    using quiet member not_weight by (simp add: CreateMeasurement_def)
qed

lemmas publisher_sample_defs =
  turn_dead_def turn_refused_def marshal_ok_def NewRabbitMQPublisher_def

lemma Itoa_3: "Itoa 3 = ''3''"
  by (simp add: Itoa.simps digit_def)

text \<open>
  The loop never calls \<open>PublishWithContext\<close> more often than there are turns left, so
  \<open>publishWithRetry\<close> makes at most \<open>maxRetries\<close> (three) publish attempts.
\<close>

lemma publish_loop_attempts:
  "length (filter is_publish_io (fst (snd (publish_loop p turn body i lastErr rc))))
   \<le> p_maxRetries p - i"
proof (induction p turn body i lastErr rc rule: publish_loop.induct)
  case (1 p turn body i lastErr rc)
  show ?case
  proof (cases "i < p_maxRetries p")
    case False
    then show ?thesis
      by (simp add: publish_loop.simps [of p turn body i])
  next
    case True
    then show ?thesis
      using "1.IH"
      by (subst publish_loop.simps)
        (auto simp: prepend_def IsClosed_def split: option.splits handle.splits)
  qed
qed

text \<open>
  When no turn publishes successfully, the loop ends in an error: \<open>publishWithRetry\<close>
  does not succeed silently.
\<close>

lemma publish_loop_never_silent:
  "\<forall>j. i \<le> j \<and> j < p_maxRetries p
        \<longrightarrow> at_channel (turn j) = None \<or> at_conn (turn j) = None
          \<or> at_conn (turn j) = Some Closed \<or> at_publish_err (turn j) \<noteq> None
   \<Longrightarrow> fst (publish_loop p turn body i lastErr rc) \<noteq> None"
proof (induction p turn body i lastErr rc rule: publish_loop.induct)
  case (1 p turn body i lastErr rc)
  show ?case
  proof (cases "i < p_maxRetries p")
    case False
    then show ?thesis
      by (simp add: publish_loop.simps [of p turn body i])
  next
    case True
    have later: "\<forall>j. i + 1 \<le> j \<and> j < p_maxRetries p
        \<longrightarrow> at_channel (turn j) = None \<or> at_conn (turn j) = None
          \<or> at_conn (turn j) = Some Closed \<or> at_publish_err (turn j) \<noteq> None"
      using "1.prems" by auto
    have here: "at_channel (turn i) = None \<or> at_conn (turn i) = None
        \<or> at_conn (turn i) = Some Closed \<or> at_publish_err (turn i) \<noteq> None"
      using "1.prems" True by auto
    show ?thesis
      using True here "1.IH" later
      by (subst publish_loop.simps)
        (auto simp: prepend_def IsClosed_def split: option.splits handle.splits)
  qed
qed

text \<open>The buffer of \<open>reconnectCh\<close> never holds more than one request.\<close>

lemma publish_loop_pending:
  "rc \<le> reconnectCh_capacity
   \<Longrightarrow> snd (snd (publish_loop p turn body i lastErr rc)) \<le> reconnectCh_capacity"
proof (induction p turn body i lastErr rc rule: publish_loop.induct)
  case (1 p turn body i lastErr rc)
  have room: "try_send rc \<le> reconnectCh_capacity"
    using "1.prems" by (simp add: try_send_def)
  show ?case
  proof (cases "i < p_maxRetries p")
    case False
    then show ?thesis
      using "1.prems" by (simp add: publish_loop.simps [of p turn body i])
  next
    case True
    then show ?thesis
      using "1.IH" "1.prems" room
      by (subst publish_loop.simps)
        (auto simp: prepend_def IsClosed_def split: option.splits handle.splits)
  qed
qed

text \<open>
  C6, at the failing input: the connection is absent on all three turns. The loop asks
  for a reconnect and sleeps one second on each turn and never calls
  \<open>PublishWithContext\<close>; \<open>lastErr\<close> is still \<open>nil\<close> when the loop ends, so the error
  returned is a plain message ending in \<open>%!w(<nil>)\<close> that wraps no cause.
\<close>

theorem publishWithRetry_dead_connection:
  "publishWithRetry (NewRabbitMQPublisher ''baby_alerts'') marshal_ok 7 turn_dead 3
     sample_fever 0
   = (Some (errorString ''failed to publish alert after 3 retries: %!w(<nil>)''),
      [PubLog ''alert_publish_attempt'',
       ReconnectRequest, Sleep 1000000000,
       ReconnectRequest, Sleep 1000000000,
       ReconnectRequest, Sleep 1000000000],
      1)
   \<and> Unwrap (errorString ''failed to publish alert after 3 retries: %!w(<nil>)'') = None"
  by (simp add: publishWithRetry_def publisher_sample_defs publish_loop.simps prepend_def
      try_send_def reconnectCh_capacity_def Errorf_w_def Itoa_3 Second_def)

text \<open>
  For comparison, a broker that refuses every publish: three attempts, a reconnect
  request and a one-second sleep after the first two, and the last refusal wrapped.
\<close>

lemma publishWithRetry_refused:
  "publishWithRetry (NewRabbitMQPublisher ''baby_alerts'') marshal_ok 7 turn_refused 3
     sample_fever 0
   = (Some (wrapError ''failed to publish alert after 3 retries: ''
         (errorString ''channel/connection is not open'')),
      [PubLog ''alert_publish_attempt'',
       PublishWithContext ''baby_alerts'' ''{}'', PubLog ''Failed to publish alert'',
       ReconnectRequest, Sleep 1000000000,
       PublishWithContext ''baby_alerts'' ''{}'', PubLog ''Failed to publish alert'',
       ReconnectRequest, Sleep 1000000000,
       PublishWithContext ''baby_alerts'' ''{}'', PubLog ''Failed to publish alert''],
      1)"
  by (simp add: publishWithRetry_def publisher_sample_defs publish_loop.simps prepend_def
      try_send_def reconnectCh_capacity_def Errorf_w_def Itoa_3 Second_def IsClosed_def)

lemmas breaker_defs =
  Execute_def beforeRequest_def afterRequest_def setState_def rabbitmq_settings_def
  NewCircuitBreaker_def no_counts_def

text \<open>Six consecutive failures from the start open the breaker; five do not.\<close>

lemma six_failures_open:
  "failing_calls rabbitmq_settings NewCircuitBreaker [t1, t2, t3, t4, t5, t6] e
   = (\<lparr>cb_state = StateOpen, cb_counts = no_counts, cb_expiry = t6 + 30 * Second\<rparr>,
      [True, True, True, True, True, True])"
  by (simp add: breaker_defs Let_def)

lemma five_failures_closed:
  "cb_state (fst (failing_calls rabbitmq_settings NewCircuitBreaker [t1, t2, t3, t4, t5] e))
   = StateClosed"
  by (simp add: breaker_defs Let_def)

text \<open>
  C3. With the settings of \<open>NewRabbitMQPublisher\<close> (trip when the consecutive failures
  exceed 5, cooldown 30 s), six consecutive failing calls from a new breaker are all run
  and leave the breaker open, while five leave it closed. A seventh call made before the
  cooldown has elapsed returns \<open>CircuitOpenError\<close> and does not run the operation; a call
  made after the cooldown has elapsed runs the operation and returns its result.
\<close>

theorem breaker_trips_after_six:
  "snd (failing_calls rabbitmq_settings NewCircuitBreaker [t1, t2, t3, t4, t5, t6] e)
     = [True, True, True, True, True, True]
   \<and> cb_state (fst (failing_calls rabbitmq_settings NewCircuitBreaker [t1, t2, t3, t4, t5] e))
     = StateClosed
   \<and> cb_state (fst (failing_calls rabbitmq_settings NewCircuitBreaker [t1, t2, t3, t4, t5, t6] e))
     = StateOpen
   \<and> (t7 \<le> t6 + 30 * Second
        \<longrightarrow> fst (Execute rabbitmq_settings
                 (fst (failing_calls rabbitmq_settings NewCircuitBreaker
                    [t1, t2, t3, t4, t5, t6] e)) t7 operation) = Some CircuitOpenError
          \<and> fst (snd (Execute rabbitmq_settings
                 (fst (failing_calls rabbitmq_settings NewCircuitBreaker
                    [t1, t2, t3, t4, t5, t6] e)) t7 operation)) = None)
   \<and> (t6 + 30 * Second < t7
        \<longrightarrow> fst (Execute rabbitmq_settings
                 (fst (failing_calls rabbitmq_settings NewCircuitBreaker
                    [t1, t2, t3, t4, t5, t6] e)) t7 operation) = fst (operation ())
          \<and> fst (snd (Execute rabbitmq_settings
                 (fst (failing_calls rabbitmq_settings NewCircuitBreaker
                    [t1, t2, t3, t4, t5, t6] e)) t7 operation)) = Some (snd (operation ())))"
proof -
  have short: "fst (Execute rabbitmq_settings
        \<lparr>cb_state = StateOpen, cb_counts = no_counts, cb_expiry = t6 + 30 * Second\<rparr> t7
        operation) = Some CircuitOpenError
      \<and> fst (snd (Execute rabbitmq_settings
        \<lparr>cb_state = StateOpen, cb_counts = no_counts, cb_expiry = t6 + 30 * Second\<rparr> t7
        operation)) = None"
    if "t7 \<le> t6 + 30 * Second"
    using that by (simp add: breaker_defs Let_def)
  have trial: "fst (Execute rabbitmq_settings
        \<lparr>cb_state = StateOpen, cb_counts = no_counts, cb_expiry = t6 + 30 * Second\<rparr> t7
        operation) = fst (operation ())
      \<and> fst (snd (Execute rabbitmq_settings
        \<lparr>cb_state = StateOpen, cb_counts = no_counts, cb_expiry = t6 + 30 * Second\<rparr> t7
        operation)) = Some (snd (operation ()))"
    if "t6 + 30 * Second < t7"
    using that by (simp add: breaker_defs Let_def split: prod.splits)
  have opened: "cb_state
      \<lparr>cb_state = StateOpen, cb_counts = no_counts, cb_expiry = t6 + 30 * Second\<rparr>
      = StateOpen"
    by simp
  show ?thesis
    unfolding six_failures_open fst_conv snd_conv
    using short trial opened five_failures_closed [of t1 t2 t3 t4 t5 e]
    by blast
qed

theorem breaker_trips_after_six_witness:
  "fst (Execute rabbitmq_settings
         (fst (failing_calls rabbitmq_settings NewCircuitBreaker
            [0, 1 * Second, 2 * Second, 3 * Second, 4 * Second, 5 * Second]
            (errorString ''connection refused'')))
         (10 * Second) (\<lambda>u. (None, ''sent''))) = Some CircuitOpenError
   \<and> fst (snd (Execute rabbitmq_settings
         (fst (failing_calls rabbitmq_settings NewCircuitBreaker
            [0, 1 * Second, 2 * Second, 3 * Second, 4 * Second, 5 * Second]
            (errorString ''connection refused'')))
         (10 * Second) (\<lambda>u. (None, ''sent'')))) = None
   \<and> fst (snd (Execute rabbitmq_settings
         (fst (failing_calls rabbitmq_settings NewCircuitBreaker
            [0, 1 * Second, 2 * Second, 3 * Second, 4 * Second, 5 * Second]
            (errorString ''connection refused'')))
         (36 * Second) (\<lambda>u. (None, ''sent'')))) = Some ''sent''"
proof -
  have within: "10 * Second \<le> 5 * Second + 30 * Second"
    by (simp add: Second_def)
  have after: "5 * Second + 30 * Second < 36 * Second"
    by (simp add: Second_def)
  note inside = breaker_trips_after_six [of 0 "1 * Second" "2 * Second" "3 * Second"
      "4 * Second" "5 * Second" "errorString ''connection refused''" "10 * Second"
      "\<lambda>u. (None, ''sent'')", THEN conjunct2, THEN conjunct2, THEN conjunct2, THEN conjunct1,
      rule_format, OF within]
  note outside = breaker_trips_after_six [of 0 "1 * Second" "2 * Second" "3 * Second"
      "4 * Second" "5 * Second" "errorString ''connection refused''" "36 * Second"
      "\<lambda>u. (None, ''sent'')", THEN conjunct2, THEN conjunct2, THEN conjunct2, THEN conjunct2,
      rule_format, OF after]
  have ran: "fst (snd (Execute rabbitmq_settings
         (fst (failing_calls rabbitmq_settings NewCircuitBreaker
            [0, 1 * Second, 2 * Second, 3 * Second, 4 * Second, 5 * Second]
            (errorString ''connection refused'')))
         (36 * Second) (\<lambda>u. (None, ''sent'')))) = Some ''sent''"
    using outside [THEN conjunct2] by (simp only: snd_conv)
  show ?thesis
    using inside ran by blast
qed

text \<open>
  The same for \<open>PublishAlert\<close> itself: on a breaker opened by six failures, a call
  within the cooldown returns \<open>CircuitOpenError\<close> and \<open>publishWithRetry\<close> is not run,
  so nothing is logged, sent or requested.
\<close>

lemma PublishAlert_on_open_breaker:
  "t7 \<le> t6 + 30 * Second
   \<Longrightarrow> PublishAlert
         (fst (failing_calls rabbitmq_settings NewCircuitBreaker [t1, t2, t3, t4, t5, t6] e))
         t7 p json_Marshal now turn babyID measurement rc
       = (Some CircuitOpenError, None,
          \<lparr>cb_state = StateOpen, cb_counts = no_counts, cb_expiry = t6 + 30 * Second\<rparr>)"
  unfolding six_failures_open fst_conv PublishAlert_def
  by (simp add: breaker_defs Let_def)

lemmas lifecycle_defs =
  NewBabyConsumer_def NewRabbitMQPublisher_def StartConsuming_def BabyConsumer_Close_def
  RabbitMQPublisher_Close_def

text \<open>
  C8. When \<open>isConsuming\<close> is set, \<open>StartConsuming\<close> returns \<open>nil\<close>, leaves the consumer
  as it is and only logs: no \<open>Qos\<close>, no \<open>Consume\<close> registration, no goroutine. So after a
  first call that started the loop, a second call changes nothing, and the two calls
  together registered one consumer and started one loop.
\<close>

theorem StartConsuming_single_instance:
  "(c_isConsuming c
      \<longrightarrow> StartConsuming qos_err consume_err tag c ctx
          = (None, c,
             [StartLog ''Baby consumer is already running in this pod, skipping duplicate start'']))
   \<and> (\<not> c_isConsuming c \<and> StartConsuming q k tag' c ctx' = (None, d, evs)
      \<longrightarrow> c_isConsuming d
        \<and> fst (snd (StartConsuming qos_err consume_err tag d ctx)) = d
        \<and> fst (StartConsuming qos_err consume_err tag d ctx) = None
        \<and> length (filter is_loop_start
             (evs @ snd (snd (StartConsuming qos_err consume_err tag d ctx)))) = 1
        \<and> length (filter is_registration
             (evs @ snd (snd (StartConsuming qos_err consume_err tag d ctx)))) = 1)"
  by (auto simp: StartConsuming_def Let_def split: if_splits option.splits)

theorem StartConsuming_single_instance_witness:
  "StartConsuming None None ''baby-consumer-2''
     (fst (snd (StartConsuming None None ''baby-consumer-1'' (NewBabyConsumer []) 1))) 1
   = (None, fst (snd (StartConsuming None None ''baby-consumer-1'' (NewBabyConsumer []) 1)),
      [StartLog ''Baby consumer is already running in this pod, skipping duplicate start''])
   \<and> c_isConsuming (fst (snd (StartConsuming None None ''baby-consumer-1''
        (NewBabyConsumer []) 1)))
   \<and> length (filter is_loop_start
        (snd (snd (StartConsuming None None ''baby-consumer-1'' (NewBabyConsumer []) 1))
         @ snd (snd (StartConsuming None None ''baby-consumer-2''
             (fst (snd (StartConsuming None None ''baby-consumer-1'' (NewBabyConsumer []) 1)))
             1)))) = 1"
proof -
  let ?first = "StartConsuming None None ''baby-consumer-1'' (NewBabyConsumer []) 1"
  have started: "c_isConsuming (fst (snd ?first))"
    by (simp add: StartConsuming_def NewBabyConsumer_def Let_def)
  have fresh: "\<not> c_isConsuming (NewBabyConsumer [])"
    by (simp add: NewBabyConsumer_def)
  have ok: "?first = (None, fst (snd ?first), snd (snd ?first))"
    by (simp add: StartConsuming_def NewBabyConsumer_def Let_def)
  note second = StartConsuming_single_instance [of "fst (snd ?first)" None None
      "''baby-consumer-2''" 1, THEN conjunct1, rule_format, OF started]
  note both = StartConsuming_single_instance [of "NewBabyConsumer []" None None
      "''baby-consumer-2''" 1 None None "''baby-consumer-1''" 1 "fst (snd ?first)"
      "snd (snd ?first)", THEN conjunct2, rule_format, OF conjI, OF fresh ok]
  show ?thesis
    using second started both by blast
qed

text \<open>
  C5, at the input that refutes idempotence: a first \<open>Close\<close> of a new publisher and of
  a new consumer returns; the second \<open>Close\<close>, on the state the first one left, panics in
  \<open>close(stopReconnect)\<close>.
\<close>

theorem Close_twice_panics:
  "RabbitMQPublisher_Close None (NewRabbitMQPublisher [])
     = Returns (None, (NewRabbitMQPublisher [])
         \<lparr>p_conn := Some Closed, p_channel := Some Closed, p_stopReconnect_closed := True\<rparr>)
   \<and> RabbitMQPublisher_Close None ((NewRabbitMQPublisher [])
         \<lparr>p_conn := Some Closed, p_channel := Some Closed, p_stopReconnect_closed := True\<rparr>)
     = Panics ''close of closed channel''
   \<and> BabyConsumer_Close None None (NewBabyConsumer [])
     = Returns (None, (NewBabyConsumer [])
         \<lparr>c_conn := Some Closed, c_channel := Some Closed, c_stopReconnect_closed := True\<rparr>,
         [Log ''Baby consumer closed''])
   \<and> BabyConsumer_Close None None ((NewBabyConsumer [])
         \<lparr>c_conn := Some Closed, c_channel := Some Closed, c_stopReconnect_closed := True\<rparr>)
     = Panics ''close of closed channel''"
  by (simp add: lifecycle_defs Let_def)

text \<open>
  C5, as the code has it. \<open>Close\<close> is safe once: while \<open>stopReconnect\<close> is open it
  returns (the consumer's always \<open>nil\<close>, with \<open>isConsuming\<close> cleared), leaves
  \<open>stopReconnect\<close> closed and no handle open. It is not idempotent: on a component whose
  \<open>stopReconnect\<close> is closed, as a completed \<open>Close\<close> leaves it, \<open>Close\<close> panics before
  it changes anything. This holds for the publisher and for the consumer.
\<close>

theorem Close_safe_once:
  "(\<not> p_stopReconnect_closed p
      \<longrightarrow> (\<exists>err p'. RabbitMQPublisher_Close e p = Returns (err, p')
            \<and> p_stopReconnect_closed p' \<and> p_channel p' \<noteq> Some Open \<and> p_conn p' \<noteq> Some Open
            \<and> RabbitMQPublisher_Close e' p' = Panics ''close of closed channel''))
   \<and> (p_stopReconnect_closed p
      \<longrightarrow> RabbitMQPublisher_Close e p = Panics ''close of closed channel'')
   \<and> (\<not> c_stopReconnect_closed c
      \<longrightarrow> (\<exists>c' evs. BabyConsumer_Close a b c = Returns (None, c', evs)
            \<and> c_stopReconnect_closed c' \<and> \<not> c_isConsuming c'
            \<and> c_channel c' \<noteq> Some Open \<and> c_conn c' \<noteq> Some Open
            \<and> BabyConsumer_Close a' b' c' = Panics ''close of closed channel''))
   \<and> (c_stopReconnect_closed c
      \<longrightarrow> BabyConsumer_Close a b c = Panics ''close of closed channel'')"
  by (auto simp: RabbitMQPublisher_Close_def BabyConsumer_Close_def Let_def)

theorem Close_safe_once_witness:
  "(\<exists>err p'. RabbitMQPublisher_Close None (NewRabbitMQPublisher []) = Returns (err, p')
        \<and> p_stopReconnect_closed p'
        \<and> RabbitMQPublisher_Close None p' = Panics ''close of closed channel'')
   \<and> (\<exists>c' evs. BabyConsumer_Close None None (NewBabyConsumer []) = Returns (None, c', evs)
        \<and> c_stopReconnect_closed c' \<and> \<not> c_isConsuming c'
        \<and> BabyConsumer_Close None None c' = Panics ''close of closed channel'')"
proof -
  have p_open: "\<not> p_stopReconnect_closed (NewRabbitMQPublisher [])"
    by (simp add: NewRabbitMQPublisher_def)
  have c_open: "\<not> c_stopReconnect_closed (NewBabyConsumer [])"
    by (simp add: NewBabyConsumer_def)
  note pub = Close_safe_once [of "NewRabbitMQPublisher []" None None, THEN conjunct1,
      rule_format, OF p_open]
  note con = Close_safe_once [of _ _ _ "NewBabyConsumer []" None None None None,
      THEN conjunct2, THEN conjunct2, THEN conjunct1, rule_format, OF c_open]
  show ?thesis
    using pub con by blast
qed

text \<open>
  C9, at the failing input: one reconnect request is already waiting in the consumer's
  \<open>reconnectCh\<close>. The consumption loop that finds its delivery channel closed blocks in
  \<open>c.reconnectCh <- true\<close>, and so does \<open>handleReconnection\<close> after a failed
  \<open>connect\<close>. The publisher's \<open>select\<close> with \<open>default\<close> does not block in the same
  state: it leaves the one request waiting.
\<close>

theorem consumer_reconnect_send_blocks:
  "fst (consume_turn sample_Unmarshal sample_uuid_Parse (CreateBaby repo_ok 7 9) None
         ((NewBabyConsumer [])\<lparr>c_isConsuming := True, c_reconnectCh := 1\<rparr>) MsgsClosed)
     = BlockedOnReconnectCh
   \<and> fst (handleReconnection_failed ((NewBabyConsumer [])\<lparr>c_reconnectCh := 1\<rparr>))
     = BlockedOnReconnectCh
   \<and> try_send 1 = 1
   \<and> fst (consume_turn sample_Unmarshal sample_uuid_Parse (CreateBaby repo_ok 7 9) None
         ((NewBabyConsumer [])\<lparr>c_isConsuming := True, c_reconnectCh := 0\<rparr>) MsgsClosed)
     = Exits"
  by (simp add: consume_turn_def handleReconnection_failed_def blocking_send_def try_send_def
      reconnectCh_capacity_def NewBabyConsumer_def)

text \<open>
  In both components the buffer of \<open>reconnectCh\<close> holds at most one request after a
  send of either kind.
\<close>

lemma reconnectCh_bounded:
  "buffered \<le> reconnectCh_capacity
   \<Longrightarrow> try_send buffered \<le> reconnectCh_capacity
     \<and> (case blocking_send buffered of Some n \<Rightarrow> n \<le> reconnectCh_capacity | None \<Rightarrow> True)"
  by (simp add: try_send_def blocking_send_def)

text \<open>
  The full buffer at the consumer's send is reachable through the consumer's own
  interface. A loop is running; the connection is lost; the loop asks for a reconnect and
  returns; the handler takes the request and \<open>connect\<close> stores fresh handles; a second
  \<open>StartConsuming\<close> finds them open and starts a loop; \<open>QueueDeclare\<close> fails and closes
  them; the new loop asks for a reconnect and returns while the handler sleeps; the
  handler's own send then finds the buffer full and blocks, with no receiver left.
\<close>

lemma handler_blocks_reachable:
  "reachable
     \<lparr>sys_consumer = (NewBabyConsumer [])
        \<lparr>c_conn := Some Closed, c_channel := Some Closed, c_reconnectCh := 1,
         c_consumingCtx := Some 1\<rparr>,
      sys_loops = 0, sys_handler = BlockedInSend\<rparr>"
proof -
  let ?c0 = "NewBabyConsumer []"
  let ?run = "?c0\<lparr>c_isConsuming := True, c_consumingCtx := Some 1\<rparr>"
  let ?lost = "?run\<lparr>c_conn := Some Closed, c_channel := Some Closed\<rparr>"
  let ?asked = "?c0\<lparr>c_conn := Some Closed, c_channel := Some Closed, c_reconnectCh := 1,
      c_consumingCtx := Some 1\<rparr>"
  let ?taken = "?asked\<lparr>c_reconnectCh := 0\<rparr>"
  let ?fresh = "?taken\<lparr>c_conn := Some Open, c_channel := Some Open\<rparr>"
  let ?again = "?fresh\<lparr>c_isConsuming := True\<rparr>"
  let ?failed = "?again\<lparr>c_conn := Some Closed, c_channel := Some Closed\<rparr>"
  have r0: "reachable \<lparr>sys_consumer = ?c0, sys_loops = 0, sys_handler = Waiting\<rparr>"
    by (rule reachable.new)
  have s1: "step \<lparr>sys_consumer = ?c0, sys_loops = 0, sys_handler = Waiting\<rparr>
      \<lparr>sys_consumer = ?run, sys_loops = 1, sys_handler = Waiting\<rparr>"
    using step.start_call [of "''baby-consumer-1''"
        "\<lparr>sys_consumer = ?c0, sys_loops = 0, sys_handler = Waiting\<rparr>" 1 ?run
        "[ChannelQos 1 0 False, ChannelConsume ''baby.creation.requests'' ''baby-consumer-1'',
          StartLog ''Baby consumer started'', GoConsumeLoop 1]"]
    by (simp add: StartConsuming_def NewBabyConsumer_def Let_def)
  have s2: "step \<lparr>sys_consumer = ?run, sys_loops = 1, sys_handler = Waiting\<rparr>
      \<lparr>sys_consumer = ?lost, sys_loops = 1, sys_handler = Waiting\<rparr>"
    using step.connection_lost [of "\<lparr>sys_consumer = ?run, sys_loops = 1, sys_handler = Waiting\<rparr>"]
    by (simp add: close_handles_def NewBabyConsumer_def)
  have s3: "step \<lparr>sys_consumer = ?lost, sys_loops = 1, sys_handler = Waiting\<rparr>
      \<lparr>sys_consumer = ?asked, sys_loops = 0, sys_handler = Waiting\<rparr>"
    using step.loop_sees_close [of "\<lparr>sys_consumer = ?lost, sys_loops = 1, sys_handler = Waiting\<rparr>"
        sample_Unmarshal sample_uuid_Parse "CreateBaby repo_ok 7 9" None ?asked
        "[Log ''Baby consumer channel closed, attempting reconnection...'']"]
    by (simp add: consume_turn_def blocking_send_def reconnectCh_capacity_def
        NewBabyConsumer_def)
  have s4: "step \<lparr>sys_consumer = ?asked, sys_loops = 0, sys_handler = Waiting\<rparr>
      \<lparr>sys_consumer = ?taken, sys_loops = 0, sys_handler = Connecting\<rparr>"
    using step.handler_receives [of "\<lparr>sys_consumer = ?asked, sys_loops = 0, sys_handler = Waiting\<rparr>"]
    by (simp add: close_handles_def NewBabyConsumer_def)
  have s5: "step \<lparr>sys_consumer = ?taken, sys_loops = 0, sys_handler = Connecting\<rparr>
      \<lparr>sys_consumer = ?fresh, sys_loops = 0, sys_handler = Declaring\<rparr>"
    using step.connect_stores_handles
      [of "\<lparr>sys_consumer = ?taken, sys_loops = 0, sys_handler = Connecting\<rparr>"]
    by simp
  have s6: "step \<lparr>sys_consumer = ?fresh, sys_loops = 0, sys_handler = Declaring\<rparr>
      \<lparr>sys_consumer = ?again, sys_loops = 1, sys_handler = Declaring\<rparr>"
    using step.start_call [of "''baby-consumer-2''"
        "\<lparr>sys_consumer = ?fresh, sys_loops = 0, sys_handler = Declaring\<rparr>" 1 ?again
        "[ChannelQos 1 0 False, ChannelConsume ''baby.creation.requests'' ''baby-consumer-2'',
          StartLog ''Baby consumer started'', GoConsumeLoop 1]"]
    by (simp add: StartConsuming_def NewBabyConsumer_def Let_def)
  have s7: "step \<lparr>sys_consumer = ?again, sys_loops = 1, sys_handler = Declaring\<rparr>
      \<lparr>sys_consumer = ?failed, sys_loops = 1, sys_handler = Sleeping\<rparr>"
    using step.declare_fails
      [of "\<lparr>sys_consumer = ?again, sys_loops = 1, sys_handler = Declaring\<rparr>"]
    by (simp add: close_handles_def NewBabyConsumer_def)
  have s8: "step \<lparr>sys_consumer = ?failed, sys_loops = 1, sys_handler = Sleeping\<rparr>
      \<lparr>sys_consumer = ?asked, sys_loops = 0, sys_handler = Sleeping\<rparr>"
    using step.loop_sees_close [of "\<lparr>sys_consumer = ?failed, sys_loops = 1, sys_handler = Sleeping\<rparr>"
        sample_Unmarshal sample_uuid_Parse "CreateBaby repo_ok 7 9" None ?asked
        "[Log ''Baby consumer channel closed, attempting reconnection...'']"]
    by (simp add: consume_turn_def blocking_send_def reconnectCh_capacity_def
        NewBabyConsumer_def)
  have s9: "step \<lparr>sys_consumer = ?asked, sys_loops = 0, sys_handler = Sleeping\<rparr>
      \<lparr>sys_consumer = ?asked, sys_loops = 0, sys_handler = BlockedInSend\<rparr>"
    using step.handler_requeues [of "\<lparr>sys_consumer = ?asked, sys_loops = 0, sys_handler = Sleeping\<rparr>"
        BlockedOnReconnectCh ?asked "[PubLog ''Reconnection failed'', Sleep (5 * Second)]"]
    by (simp add: handleReconnection_failed_def blocking_send_def reconnectCh_capacity_def
        NewBabyConsumer_def)
  from r0 s1 have "reachable \<lparr>sys_consumer = ?run, sys_loops = 1, sys_handler = Waiting\<rparr>"
    by (rule reachable.after)
  from this s2 have "reachable \<lparr>sys_consumer = ?lost, sys_loops = 1, sys_handler = Waiting\<rparr>"
    by (rule reachable.after)
  from this s3 have "reachable \<lparr>sys_consumer = ?asked, sys_loops = 0, sys_handler = Waiting\<rparr>"
    by (rule reachable.after)
  from this s4 have "reachable \<lparr>sys_consumer = ?taken, sys_loops = 0, sys_handler = Connecting\<rparr>"
    by (rule reachable.after)
  from this s5 have "reachable \<lparr>sys_consumer = ?fresh, sys_loops = 0, sys_handler = Declaring\<rparr>"
    by (rule reachable.after)
  from this s6 have "reachable \<lparr>sys_consumer = ?again, sys_loops = 1, sys_handler = Declaring\<rparr>"
    by (rule reachable.after)
  from this s7 have "reachable \<lparr>sys_consumer = ?failed, sys_loops = 1, sys_handler = Sleeping\<rparr>"
    by (rule reachable.after)
  from this s8 have "reachable \<lparr>sys_consumer = ?asked, sys_loops = 0, sys_handler = Sleeping\<rparr>"
    by (rule reachable.after)
  from this s9
  show ?thesis
    by (rule reachable.after)
qed

end
